theory Spec2Isabelle
  imports Complex_Main "HOL-Library.Multiset" "HOL-Library.Product_Lexorder"
begin

section \<open>JavaScript numbers and the built-in string-to-number conversions\<close>

text \<open>
  The controller \<^verbatim>\<open>backend/controllers/recipeController.js\<close> works on query-string
  parameters, which are strings, and turns them into numbers with \<^verbatim>\<open>parseFloat\<close>,
  \<^verbatim>\<open>parseInt\<close> and the implicit conversion of the arithmetic operators.

  A JavaScript number is modelled as an exact rational, or one of \<^verbatim>\<open>NaN\<close>,
  \<^verbatim>\<open>Infinity\<close>, \<^verbatim>\<open>-Infinity\<close>. Rounding to binary64 and the sign of zero are
  abstracted: the model is exact on decimal inputs that binary64 represents exactly
  (all numbers occurring in the statements below are of that kind). Strings are lists of
  8-bit characters, standing for the code units below 256.
\<close>

datatype jsnum = Num rat | NaN | PosInf | NegInf

definition is_digit :: "char \<Rightarrow> bool" where
  "is_digit c = (48 \<le> (of_char c :: nat) \<and> (of_char c :: nat) \<le> 57)"

definition digit_val :: "char \<Rightarrow> nat" where
  "digit_val c = of_char c - 48"

definition digits_val :: "string \<Rightarrow> nat" where
  "digits_val ds = foldl (\<lambda>a c. 10 * a + digit_val c) 0 ds"

text \<open>White space and line terminators of ECMAScript, among the code units below 256.\<close>

definition is_ws :: "char \<Rightarrow> bool" where
  "is_ws c = ((of_char c :: nat) \<in> {9, 10, 11, 12, 13, 32, 160})"

definition startsWith :: "string \<Rightarrow> string \<Rightarrow> bool" where
  "startsWith s p = (take (length p) s = p)"

definition substring :: "string \<Rightarrow> nat \<Rightarrow> string" where
  "substring s n = drop n s"

definition pow10 :: "int \<Rightarrow> rat" where
  "pow10 e = (if 0 \<le> e then 10 ^ nat e else 1 / 10 ^ nat (- e))"

text \<open>
  An optional exponent part at the head of the input: the exponent and the rest.
  \<^verbatim>\<open>e\<close> is an exponent part only when digits follow it (after an optional sign).
\<close>

definition scan_exponent :: "string \<Rightarrow> int \<times> string" where
  "scan_exponent s =
     (case s of
        [] \<Rightarrow> (0, s)
      | e # r \<Rightarrow>
          if e = CHR ''e'' \<or> e = CHR ''E'' then
            (case r of
               [] \<Rightarrow> (0, s)
             | sg # r' \<Rightarrow>
                 if sg = CHR ''+'' \<or> sg = CHR ''-'' then
                   (if takeWhile is_digit r' = [] then (0, s)
                    else ((if sg = CHR ''-'' then - int (digits_val (takeWhile is_digit r'))
                           else int (digits_val (takeWhile is_digit r'))),
                          dropWhile is_digit r'))
                 else
                   (if takeWhile is_digit r = [] then (0, s)
                    else (int (digits_val (takeWhile is_digit r)), dropWhile is_digit r)))
          else (0, s))"

text \<open>
  The longest prefix that is an unsigned decimal literal (digits, an optional fraction,
  an optional exponent; or a fraction alone): its value and the rest, or nothing.
\<close>

definition scan_decimal :: "string \<Rightarrow> (rat \<times> string) option" where
  "scan_decimal s =
     (let ip = takeWhile is_digit s;
          r1 = dropWhile is_digit s;
          fp = (case r1 of [] \<Rightarrow> [] | d # t \<Rightarrow> if d = CHR ''.'' then takeWhile is_digit t else []);
          r2 = (case r1 of [] \<Rightarrow> [] | d # t \<Rightarrow> if d = CHR ''.'' then dropWhile is_digit t else r1)
      in if ip = [] \<and> fp = [] then None
         else Some (of_nat (digits_val (ip @ fp)) / 10 ^ length fp * pow10 (fst (scan_exponent r2)),
                    snd (scan_exponent r2)))"

definition scan_unsigned :: "string \<Rightarrow> (jsnum \<times> string) option" where
  "scan_unsigned s =
     (if startsWith s ''Infinity'' then Some (PosInf, drop 8 s)
      else map_option (\<lambda>(q, r). (Num q, r)) (scan_decimal s))"

definition js_neg :: "jsnum \<Rightarrow> jsnum" where
  "js_neg x = (case x of Num q \<Rightarrow> Num (- q) | NaN \<Rightarrow> NaN | PosInf \<Rightarrow> NegInf | NegInf \<Rightarrow> PosInf)"

definition scan_signed :: "string \<Rightarrow> (jsnum \<times> string) option" where
  "scan_signed s =
     (case s of
        [] \<Rightarrow> None
      | c # r \<Rightarrow>
          if c = CHR ''-'' then map_option (\<lambda>(x, t). (js_neg x, t)) (scan_unsigned r)
          else if c = CHR ''+'' then scan_unsigned r
          else scan_unsigned s)"

text \<open>
  \<^verbatim>\<open>parseFloat(string)\<close>: leading white space is skipped, the longest prefix that is a
  decimal literal is converted, what follows it is ignored; no such prefix gives NaN.
\<close>

definition parseFloat :: "string \<Rightarrow> jsnum" where
  "parseFloat s = (case scan_signed (dropWhile is_ws s) of None \<Rightarrow> NaN | Some (x, _) \<Rightarrow> x)"

text \<open>Digits of radix 2, 8, 10 or 16.\<close>

definition radix_digit :: "nat \<Rightarrow> char \<Rightarrow> nat option" where
  "radix_digit R c =
     (let n = (of_char c :: nat);
          v = (if 48 \<le> n \<and> n \<le> 57 then n - 48
               else if 97 \<le> n \<and> n \<le> 122 then n - 87
               else if 65 \<le> n \<and> n \<le> 90 then n - 55
               else R)
      in if v < R then Some v else None)"

definition radix_val :: "nat \<Rightarrow> string \<Rightarrow> nat" where
  "radix_val R ds = foldl (\<lambda>a c. R * a + (case radix_digit R c of None \<Rightarrow> 0 | Some v \<Rightarrow> v)) 0 ds"

definition radix_prefix :: "nat \<Rightarrow> string \<Rightarrow> string" where
  "radix_prefix R s = takeWhile (\<lambda>c. radix_digit R c \<noteq> None) s"

text \<open>
  \<^verbatim>\<open>parseInt(string)\<close> without a radix: leading white space, an optional sign, an
  optional \<^verbatim>\<open>0x\<close> prefix selecting radix 16, then the longest run of digits; no digit
  gives NaN.
\<close>

definition parseInt_unsigned :: "string \<Rightarrow> jsnum" where
  "parseInt_unsigned s =
     (if startsWith s ''0x'' \<or> startsWith s ''0X'' then
        (if radix_prefix 16 (drop 2 s) = [] then NaN
         else Num (of_nat (radix_val 16 (radix_prefix 16 (drop 2 s)))))
      else
        (if radix_prefix 10 s = [] then NaN
         else Num (of_nat (radix_val 10 (radix_prefix 10 s)))))"

definition parseInt :: "string \<Rightarrow> jsnum" where
  "parseInt s =
     (case dropWhile is_ws s of
        [] \<Rightarrow> NaN
      | c # r \<Rightarrow>
          if c = CHR ''-'' then js_neg (parseInt_unsigned r)
          else if c = CHR ''+'' then parseInt_unsigned r
          else parseInt_unsigned (c # r))"

text \<open>
  The conversion the arithmetic operators apply to a string operand: surrounding white
  space is trimmed, the empty string is 0, the whole rest must be a numeric literal
  (signed decimal, or unsigned binary, octal or hexadecimal integer), otherwise NaN.
\<close>

definition trim_ws :: "string \<Rightarrow> string" where
  "trim_ws s = rev (dropWhile is_ws (rev (dropWhile is_ws s)))"

definition nondecimal_literal :: "string \<Rightarrow> jsnum option" where
  "nondecimal_literal s =
     (let R = (if startsWith s ''0x'' \<or> startsWith s ''0X'' then 16
               else if startsWith s ''0o'' \<or> startsWith s ''0O'' then 8
               else if startsWith s ''0b'' \<or> startsWith s ''0B'' then 2
               else (0::nat))
      in if R = 0 then None
         else if drop 2 s \<noteq> [] \<and> radix_prefix R (drop 2 s) = drop 2 s
              then Some (Num (of_nat (radix_val R (drop 2 s))))
         else Some NaN)"

definition StringToNumber :: "string \<Rightarrow> jsnum" where
  "StringToNumber s =
     (let t = trim_ws s
      in if t = [] then Num 0
         else (case nondecimal_literal t of
                 Some x \<Rightarrow> x
               | None \<Rightarrow>
                   (case scan_signed t of
                      None \<Rightarrow> NaN
                    | Some (x, r) \<Rightarrow> if r = [] then x else NaN)))"

subsection \<open>Arithmetic of the controller\<close>

definition js_sub :: "jsnum \<Rightarrow> jsnum \<Rightarrow> jsnum" where
  "js_sub a b =
     (case (a, b) of
        (Num x, Num y) \<Rightarrow> Num (x - y)
      | (NaN, _) \<Rightarrow> NaN
      | (_, NaN) \<Rightarrow> NaN
      | (PosInf, PosInf) \<Rightarrow> NaN
      | (NegInf, NegInf) \<Rightarrow> NaN
      | (PosInf, _) \<Rightarrow> PosInf
      | (NegInf, _) \<Rightarrow> NegInf
      | (Num x, PosInf) \<Rightarrow> NegInf
      | (Num x, NegInf) \<Rightarrow> PosInf)"

text \<open>The sign of a number that is not NaN: \<open>-1\<close>, \<open>0\<close> or \<open>1\<close>.\<close>

definition js_sign :: "jsnum \<Rightarrow> int" where
  "js_sign a = (case a of Num x \<Rightarrow> (if x < 0 then - 1 else if x = 0 then 0 else 1)
                | NaN \<Rightarrow> 0 | PosInf \<Rightarrow> 1 | NegInf \<Rightarrow> - 1)"

definition js_inf :: "int \<Rightarrow> jsnum" where
  "js_inf s = (if s = 0 then NaN else if 0 < s then PosInf else NegInf)"

definition js_mul :: "jsnum \<Rightarrow> jsnum \<Rightarrow> jsnum" where
  "js_mul a b =
     (case (a, b) of
        (Num x, Num y) \<Rightarrow> Num (x * y)
      | (NaN, _) \<Rightarrow> NaN
      | (_, NaN) \<Rightarrow> NaN
      | _ \<Rightarrow> js_inf (js_sign a * js_sign b))"

definition js_div :: "jsnum \<Rightarrow> jsnum \<Rightarrow> jsnum" where
  "js_div a b =
     (case (a, b) of
        (Num x, Num y) \<Rightarrow> (if y = 0 then js_inf (js_sign a) else Num (x / y))
      | (NaN, _) \<Rightarrow> NaN
      | (_, NaN) \<Rightarrow> NaN
      | (Num x, _) \<Rightarrow> Num 0
      | (_, Num y) \<Rightarrow> (if y = 0 then a else js_inf (js_sign a * js_sign b))
      | _ \<Rightarrow> NaN)"

definition Math_ceil :: "jsnum \<Rightarrow> jsnum" where
  "Math_ceil a = (case a of Num x \<Rightarrow> Num (of_int \<lceil>x\<rceil>) | _ \<Rightarrow> a)"

text \<open>Truthiness of a number: \<open>0\<close> and NaN are falsy.\<close>

definition truthy_num :: "jsnum \<Rightarrow> bool" where
  "truthy_num a = (a \<noteq> NaN \<and> a \<noteq> Num 0)"

section \<open>The comparison parser\<close>

text \<open>
  \<^verbatim>\<open>parseComparisonQuery\<close> returns \<^verbatim>\<open>null\<close>, a store predicate object
  (\<^verbatim>\<open>{$gte: x}\<close>, \<^verbatim>\<open>{$lte: x}\<close>, \<^verbatim>\<open>{$gt: x}\<close>, \<^verbatim>\<open>{$lt: x}\<close>) or a bare number.
\<close>

datatype comparison = Null | Gte jsnum | Lte jsnum | Gt jsnum | Lt jsnum | Bare jsnum

definition parseComparisonQuery :: "string \<Rightarrow> comparison" where
  "parseComparisonQuery v =
     (if v = [] then Null
      else if startsWith v ''>='' then Gte (parseFloat (substring v 2))
      else if startsWith v ''<='' then Lte (parseFloat (substring v 2))
      else if startsWith v ''>'' then Gt (parseFloat (substring v 1))
      else if startsWith v ''<'' then Lt (parseFloat (substring v 1))
      else if startsWith v ''=='' then Bare (parseFloat (substring v 2))
      else Bare (parseFloat v))"

text \<open>Truthiness of the parser's result, as tested by \<^verbatim>\<open>if (timeQuery)\<close>.\<close>

definition truthy :: "comparison \<Rightarrow> bool" where
  "truthy c = (case c of Null \<Rightarrow> False | Bare x \<Rightarrow> truthy_num x | _ \<Rightarrow> True)"

section \<open>Regular expressions: the fragment of \<^verbatim>\<open>new RegExp(text, 'i')\<close> modelled\<close>

text \<open>
  The controller compiles the raw \<^verbatim>\<open>title\<close> and \<^verbatim>\<open>cuisine\<close> values with
  \<^verbatim>\<open>new RegExp(value, 'i')\<close> and hands the result to the store as a \<^verbatim>\<open>$regex\<close>
  predicate. The pattern language modelled here is: pattern characters, \<^verbatim>\<open>.\<close>,
  alternation, capturing and \<^verbatim>\<open>(?:\<close> groups, the quantifiers \<^verbatim>\<open>*\<close>, \<^verbatim>\<open>+\<close>, \<^verbatim>\<open>?\<close>
  (greedy or lazy) and backslash escapes of syntax characters. A pattern that uses anything
  else (character classes, braces, anchors, other escapes, look-around) is reported as
  \<open>Unsupported\<close>: the model says nothing about it. Within the fragment a pattern either
  compiles or is a syntax error, as in ECMAScript.
\<close>

datatype regex = Zero | Eps | Chr char | Dot | Alt regex regex | Seq regex regex | Star regex

datatype regexp_result = Compiled regex | SyntaxError | Unsupported

datatype qstate = NoAtom | Atom | Quantified | LazyQuantified

text \<open>
  A parser frame: the finished alternatives of the group being read (latest first), the
  terms of the current alternative (latest first), and what the last term admits.
\<close>

datatype frame = Frame "regex list" "regex list" qstate

definition seq_of :: "regex list \<Rightarrow> regex" where
  "seq_of ts = foldl (\<lambda>acc t. Seq t acc) Eps ts"

definition close_frame :: "frame \<Rightarrow> regex" where
  "close_frame f = (case f of Frame alts ts q \<Rightarrow> foldl (\<lambda>acc a. Alt a acc) (seq_of ts) alts)"

definition push_atom :: "frame \<Rightarrow> regex \<Rightarrow> frame" where
  "push_atom f r = (case f of Frame alts ts q \<Rightarrow> Frame alts (r # ts) Atom)"

definition next_alternative :: "frame \<Rightarrow> frame" where
  "next_alternative f = (case f of Frame alts ts q \<Rightarrow> Frame (seq_of ts # alts) [] NoAtom)"

definition quantified :: "char \<Rightarrow> regex \<Rightarrow> regex" where
  "quantified c r =
     (if c = CHR ''*'' then Star r
      else if c = CHR ''+'' then Seq r (Star r)
      else Alt r Eps)"

text \<open>
  A quantifier applies to the atom before it; \<^verbatim>\<open>?\<close> right after a quantifier makes it
  lazy, which does not change what matches. Anything else is "nothing to repeat".
\<close>

definition quantify :: "char \<Rightarrow> frame \<Rightarrow> frame option" where
  "quantify c f =
     (case f of Frame alts ts q \<Rightarrow>
        (case ts of
           [] \<Rightarrow> None
         | t # ts' \<Rightarrow>
             if q = Atom then Some (Frame alts (quantified c t # ts') Quantified)
             else if q = Quantified \<and> c = CHR ''?'' then Some (Frame alts ts LazyQuantified)
             else None))"

definition is_syntax_char :: "char \<Rightarrow> bool" where
  "is_syntax_char c = (c = CHR 0x5C \<or> c \<in> set ''^$.*+?()[]{}|/'')"

fun parse_pattern :: "frame list \<Rightarrow> frame \<Rightarrow> string \<Rightarrow> regexp_result" where
  "parse_pattern stack f [] = (if stack = [] then Compiled (close_frame f) else SyntaxError)"
| "parse_pattern stack f (c # cs) =
     (if c = CHR ''('' then
        (case cs of
           [] \<Rightarrow> SyntaxError
         | d # ds \<Rightarrow>
             if d = CHR ''?'' then
               (case ds of
                  [] \<Rightarrow> SyntaxError
                | e # es \<Rightarrow>
                    if e = CHR '':'' then parse_pattern (f # stack) (Frame [] [] NoAtom) es
                    else Unsupported)
             else parse_pattern (f # stack) (Frame [] [] NoAtom) cs)
      else if c = CHR '')'' then
        (case stack of
           [] \<Rightarrow> SyntaxError
         | p # ps \<Rightarrow> parse_pattern ps (push_atom p (close_frame f)) cs)
      else if c = CHR ''|'' then parse_pattern stack (next_alternative f) cs
      else if c = CHR ''*'' \<or> c = CHR ''+'' \<or> c = CHR ''?'' then
        (case quantify c f of
           None \<Rightarrow> SyntaxError
         | Some f' \<Rightarrow> parse_pattern stack f' cs)
      else if c = CHR ''.'' then parse_pattern stack (push_atom f Dot) cs
      else if c = CHR 0x5C then
        (case cs of
           [] \<Rightarrow> SyntaxError
         | d # ds \<Rightarrow>
             if is_syntax_char d then parse_pattern stack (push_atom f (Chr d)) ds
             else Unsupported)
      else if c = CHR ''['' \<or> c = CHR ''{'' \<or> c = CHR ''^'' \<or> c = CHR ''$'' then Unsupported
      else parse_pattern stack (push_atom f (Chr c)) cs)"

definition RegExp :: "string \<Rightarrow> regexp_result" where
  "RegExp p = parse_pattern [] (Frame [] [] NoAtom) p"

text \<open>
  Matching under the \<^verbatim>\<open>i\<close> flag compares canonicalised characters: the simple upper-case
  mapping, which on code units below 256 moves \<^verbatim>\<open>a\<close>-\<^verbatim>\<open>z\<close> and the accented
  letters \<open>0xE0\<close>-\<open>0xFE\<close> (without \<open>0xF7\<close>) down by 32.
\<close>

definition Canonicalize :: "char \<Rightarrow> char" where
  "Canonicalize c =
     (let n = (of_char c :: nat)
      in if (97 \<le> n \<and> n \<le> 122) \<or> (224 \<le> n \<and> n \<le> 254 \<and> n \<noteq> 247)
         then char_of (n - 32) else c)"

definition line_terminator :: "char \<Rightarrow> bool" where
  "line_terminator c = ((of_char c :: nat) = 10 \<or> (of_char c :: nat) = 13)"

fun nullable :: "regex \<Rightarrow> bool" where
  "nullable Zero = False"
| "nullable Eps = True"
| "nullable (Chr c) = False"
| "nullable Dot = False"
| "nullable (Alt r s) = (nullable r \<or> nullable s)"
| "nullable (Seq r s) = (nullable r \<and> nullable s)"
| "nullable (Star r) = True"

text \<open>What is left of a regular expression after it has read one character.\<close>

fun deriv :: "char \<Rightarrow> regex \<Rightarrow> regex" where
  "deriv a Zero = Zero"
| "deriv a Eps = Zero"
| "deriv a (Chr c) = (if Canonicalize a = Canonicalize c then Eps else Zero)"
| "deriv a Dot = (if line_terminator a then Zero else Eps)"
| "deriv a (Alt r s) = Alt (deriv a r) (deriv a s)"
| "deriv a (Seq r s) =
     (if nullable r then Alt (Seq (deriv a r) s) (deriv a s) else Seq (deriv a r) s)"
| "deriv a (Star r) = Seq (deriv a r) (Star r)"

text \<open>Some prefix of the text matches the expression.\<close>

fun matches_prefix :: "regex \<Rightarrow> string \<Rightarrow> bool" where
  "matches_prefix r [] = nullable r"
| "matches_prefix r (c # s) = (nullable r \<or> matches_prefix (deriv c r) s)"

text \<open>
  The unanchored search of \<^verbatim>\<open>$regex\<close> (and of \<^verbatim>\<open>RegExp.prototype.test\<close>): the
  expression matches at some position of the text.
\<close>

fun regex_test :: "regex \<Rightarrow> string \<Rightarrow> bool" where
  "regex_test r [] = matches_prefix r []"
| "regex_test r (c # s) = (matches_prefix r (c # s) \<or> regex_test r s)"

text \<open>
  The claim's words, for comparison: the text occurs in the subject as a contiguous
  substring, letter case ignored.
\<close>

definition ci_prefix :: "string \<Rightarrow> string \<Rightarrow> bool" where
  "ci_prefix p s = (map Canonicalize (take (length p) s) = map Canonicalize p)"

fun ci_substring :: "string \<Rightarrow> string \<Rightarrow> bool" where
  "ci_substring p [] = ci_prefix p []"
| "ci_substring p (c # s) = (ci_prefix p (c # s) \<or> ci_substring p s)"

section \<open>Recipe records and store filters\<close>

text \<open>
  A stored document of \<^verbatim>\<open>backend/models/Recipe.js\<close>. Every attribute may be absent
  (\<^verbatim>\<open>null\<close>); numeric attributes are finite numbers (the import script replaces NaN
  by \<^verbatim>\<open>null\<close>). \<open>nutrients\<close> is an object from nutrient names to display strings such as
  \<^verbatim>\<open>"450 kcal"\<close>. \<open>caloriesValue\<close> is the transient field that the aggregation
  pipeline adds and removes; stored documents do not have it.
\<close>

datatype bson = BNull | BString string | BDouble rat

record recipe =
  rid :: nat
  cuisine :: "string option"
  title :: "string option"
  rating :: "rat option"
  prep_time :: "rat option"
  cook_time :: "rat option"
  total_time :: "rat option"
  description :: "string option"
  nutrients :: "(string \<times> string) list option"
  serves :: "string option"
  ingredients :: "string list"
  instructions :: "string list"
  caloriesValue :: "bson option"

text \<open>The filter object \<^verbatim>\<open>query\<close> that \<^verbatim>\<open>searchRecipes\<close> assembles field by field.\<close>

record query =
  query_cuisine :: "regex option"
  query_title :: "regex option"
  query_total_time :: "comparison option"
  query_rating :: "comparison option"

definition empty_query :: query where
  "empty_query = \<lparr>query_cuisine = None, query_title = None,
                  query_total_time = None, query_rating = None\<rparr>"

text \<open>
  The expression language of \<^verbatim>\<open>$addFields\<close>, as far as the controller uses it, and the
  stages of its aggregation pipelines.
\<close>

datatype expr =
    NutrientsField string
  | Const string
  | IfNull expr expr
  | ReplaceAll expr string string
  | Trim expr
  | ToDouble expr

datatype stage =
    Match query
  | AddCaloriesValue expr
  | MatchCaloriesValue comparison
  | ProjectOutCaloriesValue
  | Count
  | SortByRatingDesc
  | Skip jsnum
  | Limit jsnum

section \<open>The record store\<close>

text \<open>
  The store is a collaborator of the controller: the four round trips the controller
  issues, each answering with a result or failing with an error text.
  \<^item> \<open>countDocuments q\<close> is \<^verbatim>\<open>Recipe.countDocuments(q)\<close>;
  \<^item> \<open>find_sort_skip_limit q s l\<close> is
    \<^verbatim>\<open>Recipe.find(q).sort({ rating: -1 }).skip(s).limit(l).lean()\<close>;
  \<^item> \<open>aggregate p\<close> is \<^verbatim>\<open>Recipe.aggregate(p)\<close> for a pipeline that yields recipe
    documents;
  \<^item> \<open>aggregate_count p\<close> is \<^verbatim>\<open>Recipe.aggregate(p)\<close> for a pipeline that ends in
    \<^verbatim>\<open>{ $count: 'total' }\<close>: the \<^verbatim>\<open>total\<close> fields of the documents it yields.
\<close>

record store =
  countDocuments :: "query \<Rightarrow> string + nat"
  find_sort_skip_limit :: "query \<Rightarrow> jsnum \<Rightarrow> jsnum \<Rightarrow> string + recipe list"
  aggregate :: "stage list \<Rightarrow> string + recipe list"
  aggregate_count :: "stage list \<Rightarrow> string + nat list"

subsection \<open>A reference store over a list of documents\<close>

text \<open>
  The store's comparison of a stored value with a predicate: a number compares with a
  number; \<^verbatim>\<open>null\<close> and strings satisfy no numeric predicate; NaN compares with no stored
  number.
\<close>

definition js_less_eq :: "jsnum \<Rightarrow> jsnum \<Rightarrow> bool" where
  "js_less_eq a b =
     (case (a, b) of
        (Num x, Num y) \<Rightarrow> x \<le> y
      | (NaN, _) \<Rightarrow> False
      | (_, NaN) \<Rightarrow> False
      | (NegInf, _) \<Rightarrow> True
      | (_, PosInf) \<Rightarrow> True
      | _ \<Rightarrow> False)"

definition js_less :: "jsnum \<Rightarrow> jsnum \<Rightarrow> bool" where
  "js_less a b = (js_less_eq a b \<and> a \<noteq> b)"

definition bson_matches :: "comparison \<Rightarrow> bson \<Rightarrow> bool" where
  "bson_matches c v =
     (case v of
        BDouble d \<Rightarrow>
          (case c of
             Null \<Rightarrow> False
           | Gte x \<Rightarrow> js_less_eq x (Num d)
           | Lte x \<Rightarrow> js_less_eq (Num d) x
           | Gt x \<Rightarrow> js_less x (Num d)
           | Lt x \<Rightarrow> js_less (Num d) x
           | Bare x \<Rightarrow> x = Num d)
      | BNull \<Rightarrow> c = Null
      | BString s \<Rightarrow> False)"

definition number_field :: "rat option \<Rightarrow> bson" where
  "number_field v = (case v of None \<Rightarrow> BNull | Some d \<Rightarrow> BDouble d)"

definition comparison_holds :: "comparison option \<Rightarrow> bson \<Rightarrow> bool" where
  "comparison_holds c v = (case c of None \<Rightarrow> True | Some p \<Rightarrow> bson_matches p v)"

definition regex_holds :: "regex option \<Rightarrow> string option \<Rightarrow> bool" where
  "regex_holds re v =
     (case re of
        None \<Rightarrow> True
      | Some r \<Rightarrow> (case v of None \<Rightarrow> False | Some s \<Rightarrow> regex_test r s))"

definition query_matches :: "query \<Rightarrow> recipe \<Rightarrow> bool" where
  "query_matches q r =
     (regex_holds (query_cuisine q) (cuisine r) \<and>
      regex_holds (query_title q) (title r) \<and>
      comparison_holds (query_total_time q) (number_field (total_time r)) \<and>
      comparison_holds (query_rating q) (number_field (rating r)))"

text \<open>
  Sorting by \<^verbatim>\<open>{ rating: -1 }\<close>: higher ratings first, documents without a rating last.
  Documents whose ratings are equal stay in the order the collection yields them.
\<close>

definition rating_desc_key :: "recipe \<Rightarrow> bool \<times> rat" where
  "rating_desc_key r = (case rating r of None \<Rightarrow> (True, 0) | Some x \<Rightarrow> (False, - x))"

definition sort_rating_desc :: "recipe list \<Rightarrow> recipe list" where
  "sort_rating_desc rs = sort_key rating_desc_key rs"

text \<open>A skip or limit argument the store accepts: a non-negative integer.\<close>

definition as_index :: "jsnum \<Rightarrow> nat option" where
  "as_index a =
     (case a of
        Num x \<Rightarrow> (if 0 \<le> x \<and> of_int \<lfloor>x\<rfloor> = x then Some (nat \<lfloor>x\<rfloor>) else None)
      | _ \<Rightarrow> None)"

text \<open>The string operators of the pipeline and the strict conversion of \<^verbatim>\<open>$toDouble\<close>.\<close>

function replaceAll :: "string \<Rightarrow> string \<Rightarrow> string \<Rightarrow> string" where
  "replaceAll s f r =
     (if s = [] then []
      else if f \<noteq> [] \<and> startsWith s f then r @ replaceAll (drop (length f) s) f r
      else hd s # replaceAll (tl s) f r)"
  by pat_completeness auto
termination
  by (relation "measure (\<lambda>(s, f, r). length s)") auto

declare replaceAll.simps [simp del]

definition is_trim_char :: "char \<Rightarrow> bool" where
  "is_trim_char c = ((of_char c :: nat) \<in> {0, 9, 10, 11, 12, 13, 32, 160})"

definition trim :: "string \<Rightarrow> string" where
  "trim s = rev (dropWhile is_trim_char (rev (dropWhile is_trim_char s)))"

definition toDouble :: "string \<Rightarrow> rat option" where
  "toDouble s =
     (case scan_signed s of
        Some (Num x, r) \<Rightarrow> (if r = [] then Some x else None)
      | _ \<Rightarrow> None)"

fun eval_expr :: "recipe \<Rightarrow> expr \<Rightarrow> string + bson" where
  "eval_expr r (NutrientsField k) =
     (case nutrients r of
        None \<Rightarrow> Inr BNull
      | Some m \<Rightarrow> (case map_of m k of None \<Rightarrow> Inr BNull | Some s \<Rightarrow> Inr (BString s)))"
| "eval_expr r (Const s) = Inr (BString s)"
| "eval_expr r (IfNull a b) =
     (case eval_expr r a of
        Inl e \<Rightarrow> Inl e
      | Inr v \<Rightarrow> if v = BNull then eval_expr r b else Inr v)"
| "eval_expr r (ReplaceAll a f t) =
     (case eval_expr r a of
        Inl e \<Rightarrow> Inl e
      | Inr BNull \<Rightarrow> Inr BNull
      | Inr (BString s) \<Rightarrow> Inr (BString (replaceAll s f t))
      | Inr (BDouble d) \<Rightarrow> Inl ''$replaceAll requires that input be a string'')"
| "eval_expr r (Trim a) =
     (case eval_expr r a of
        Inl e \<Rightarrow> Inl e
      | Inr BNull \<Rightarrow> Inr BNull
      | Inr (BString s) \<Rightarrow> Inr (BString (trim s))
      | Inr (BDouble d) \<Rightarrow> Inl ''$trim requires its input to be a string'')"
| "eval_expr r (ToDouble a) =
     (case eval_expr r a of
        Inl e \<Rightarrow> Inl e
      | Inr BNull \<Rightarrow> Inr BNull
      | Inr (BDouble d) \<Rightarrow> Inr (BDouble d)
      | Inr (BString s) \<Rightarrow>
          (case toDouble s of
             None \<Rightarrow> Inl ''Failed to parse number in $convert''
           | Some d \<Rightarrow> Inr (BDouble d)))"

fun add_caloriesValue :: "expr \<Rightarrow> recipe list \<Rightarrow> string + recipe list" where
  "add_caloriesValue e [] = Inr []"
| "add_caloriesValue e (r # rs) =
     (case eval_expr r e of
        Inl m \<Rightarrow> Inl m
      | Inr v \<Rightarrow>
          (case add_caloriesValue e rs of
             Inl m \<Rightarrow> Inl m
           | Inr rs' \<Rightarrow> Inr (r\<lparr>caloriesValue := Some v\<rparr> # rs')))"

definition caloriesValue_of :: "recipe \<Rightarrow> bson" where
  "caloriesValue_of r = (case caloriesValue r of None \<Rightarrow> BNull | Some v \<Rightarrow> v)"

definition run_stage :: "stage \<Rightarrow> recipe list \<Rightarrow> string + recipe list" where
  "run_stage s rs =
     (case s of
        Match q \<Rightarrow> Inr (filter (query_matches q) rs)
      | AddCaloriesValue e \<Rightarrow> add_caloriesValue e rs
      | MatchCaloriesValue c \<Rightarrow> Inr (filter (\<lambda>r. bson_matches c (caloriesValue_of r)) rs)
      | ProjectOutCaloriesValue \<Rightarrow> Inr (map (\<lambda>r. r\<lparr>caloriesValue := None\<rparr>) rs)
      | Count \<Rightarrow> Inl ''$count is only modelled as the last stage''
      | SortByRatingDesc \<Rightarrow> Inr (sort_rating_desc rs)
      | Skip a \<Rightarrow>
          (case as_index a of
             None \<Rightarrow> Inl ''invalid argument to $skip''
           | Some n \<Rightarrow> Inr (drop n rs))
      | Limit a \<Rightarrow>
          (case as_index a of
             None \<Rightarrow> Inl ''invalid argument to $limit''
           | Some n \<Rightarrow> if n = 0 then Inl ''the limit must be positive'' else Inr (take n rs)))"

fun run_pipeline :: "stage list \<Rightarrow> recipe list \<Rightarrow> string + recipe list" where
  "run_pipeline [] rs = Inr rs"
| "run_pipeline (s # ss) rs =
     (case run_stage s rs of Inl m \<Rightarrow> Inl m | Inr rs' \<Rightarrow> run_pipeline ss rs')"

text \<open>
  The reference store: the collection is a list of documents in the order the store
  yields them. It fails only on arguments it rejects. \<^verbatim>\<open>limit(0)\<close> of a find means no
  limit; \<^verbatim>\<open>$count\<close> yields no document for an empty input.
\<close>

definition collection :: "recipe list \<Rightarrow> store" where
  "collection docs =
     \<lparr>countDocuments = (\<lambda>q. Inr (length (filter (query_matches q) docs))),
      find_sort_skip_limit = (\<lambda>q s l.
        (case as_index s of
           None \<Rightarrow> Inl ''invalid skip value''
         | Some i \<Rightarrow>
             (case as_index l of
                None \<Rightarrow> Inl ''invalid limit value''
              | Some n \<Rightarrow>
                  Inr ((if n = 0 then (\<lambda>rs. rs) else take n)
                         (drop i (sort_rating_desc (filter (query_matches q) docs))))))),
      aggregate = (\<lambda>p. run_pipeline p docs),
      aggregate_count = (\<lambda>p.
        if p \<noteq> [] \<and> last p = Count then
          (case run_pipeline (butlast p) docs of
             Inl m \<Rightarrow> Inl m
           | Inr rs \<Rightarrow> if rs = [] then Inr [] else Inr [length rs])
        else Inl ''not a $count pipeline'')\<rparr>"

section \<open>The controller\<close>

text \<open>
  \<^verbatim>\<open>req.query\<close>: each parameter is absent or a string. (Repeated or nested parameters,
  which the transport would decode to arrays or objects, are outside this type.)
\<close>

record params =
  param_calories :: "string option"
  param_title :: "string option"
  param_cuisine :: "string option"
  param_total_time :: "string option"
  param_rating :: "string option"
  param_page :: "string option"
  param_limit :: "string option"

datatype js_error = RegExpSyntaxError string | StoreError string

text \<open>
  The body passed to \<^verbatim>\<open>res.json\<close> on success (\<^verbatim>\<open>success: true\<close>), and the response:
  a success, a failure with its status, \<^verbatim>\<open>message\<close> and \<^verbatim>\<open>error\<close> (the error whose
  message is reported), or \<open>NotModelled\<close> when a pattern lies outside the fragment.
\<close>

record body =
  res_count :: nat
  res_total :: nat
  res_page :: jsnum
  res_totalPages :: jsnum
  res_data :: "recipe list"

datatype response = Success body | Failure nat string js_error | NotModelled

definition server_error :: "js_error \<Rightarrow> response" where
  "server_error e = Failure 500 ''Server Error'' e"

text \<open>\<^verbatim>\<open>parseInt(x) || d\<close> on a parameter that may be absent.\<close>

definition parseInt_param :: "string option \<Rightarrow> jsnum" where
  "parseInt_param v = (case v of None \<Rightarrow> NaN | Some s \<Rightarrow> parseInt s)"

definition or_default :: "jsnum \<Rightarrow> jsnum \<Rightarrow> jsnum" where
  "or_default a d = (if truthy_num a then a else d)"

definition getRecipes :: "store \<Rightarrow> params \<Rightarrow> response" where
  "getRecipes st req =
     (let page = or_default (parseInt_param (param_page req)) (Num 1);
          limit = or_default (parseInt_param (param_limit req)) (Num 10);
          skip = js_mul (js_sub page (Num 1)) limit
      in case find_sort_skip_limit st empty_query skip limit of
           Inl m \<Rightarrow> server_error (StoreError m)
         | Inr recipes \<Rightarrow>
             (case countDocuments st empty_query of
                Inl m \<Rightarrow> server_error (StoreError m)
              | Inr total' \<Rightarrow>
                  Success \<lparr>res_count = length recipes, res_total = total', res_page = page,
                           res_totalPages = Math_ceil (js_div (Num (of_nat total')) limit),
                           res_data = recipes\<rparr>))"

text \<open>
  \<^verbatim>\<open>const { ..., page = 1, limit = 15 } = req.query\<close>: the default replaces an absent
  parameter only, so \<open>page\<close> and \<open>limit\<close> are the given string or the default number.
\<close>

datatype qvalue = QStr string | QNum int

definition param_or :: "string option \<Rightarrow> int \<Rightarrow> qvalue" where
  "param_or v d = (case v of None \<Rightarrow> QNum d | Some s \<Rightarrow> QStr s)"

definition ToNumber :: "qvalue \<Rightarrow> jsnum" where
  "ToNumber v = (case v of QStr s \<Rightarrow> StringToNumber s | QNum i \<Rightarrow> Num (of_int i))"

definition parseInt_q :: "qvalue \<Rightarrow> jsnum" where
  "parseInt_q v = (case v of QStr s \<Rightarrow> parseInt s | QNum i \<Rightarrow> Num (of_int i))"

text \<open>
  The outcome of a step that may throw. A parameter is used when it is truthy: present
  and not the empty string.
\<close>

datatype 'a attempt = Done 'a | Threw js_error | OutsideFragment

definition regex_filter :: "string option \<Rightarrow> regex option attempt" where
  "regex_filter v =
     (case v of
        None \<Rightarrow> Done None
      | Some s \<Rightarrow>
          if s = [] then Done None
          else (case RegExp s of
                  Compiled r \<Rightarrow> Done (Some r)
                | SyntaxError \<Rightarrow> Threw (RegExpSyntaxError s)
                | Unsupported \<Rightarrow> OutsideFragment))"

text \<open>
  \<^verbatim>\<open>if (v) { const q = parseComparisonQuery(v); if (q) { ... = q } }\<close>: the predicate
  that is attached, if any.
\<close>

definition comparison_filter :: "string option \<Rightarrow> comparison option" where
  "comparison_filter v =
     (case v of
        None \<Rightarrow> None
      | Some s \<Rightarrow>
          if s = [] then None
          else if truthy (parseComparisonQuery s) then Some (parseComparisonQuery s)
          else None)"

text \<open>Lines 42 to 68 of the controller: the filter object, built field by field.\<close>

definition buildQuery :: "params \<Rightarrow> query attempt" where
  "buildQuery req =
     (case regex_filter (param_cuisine req) of
        Threw e \<Rightarrow> Threw e
      | OutsideFragment \<Rightarrow> OutsideFragment
      | Done c \<Rightarrow>
          (case regex_filter (param_title req) of
             Threw e \<Rightarrow> Threw e
           | OutsideFragment \<Rightarrow> OutsideFragment
           | Done t \<Rightarrow>
               Done \<lparr>query_cuisine = c, query_title = t,
                     query_total_time = comparison_filter (param_total_time req),
                     query_rating = comparison_filter (param_rating req)\<rparr>))"

definition calories_expr :: expr where
  "calories_expr =
     ToDouble (Trim (ReplaceAll (IfNull (NutrientsField ''calories'') (Const ''0''))
                                '' kcal'' []))"

definition aggregationPipeline :: "query \<Rightarrow> comparison \<Rightarrow> stage list" where
  "aggregationPipeline q caloriesQuery =
     [Match q, AddCaloriesValue calories_expr, MatchCaloriesValue caloriesQuery,
      ProjectOutCaloriesValue]"

text \<open>Lines 76 to 131: the computed-field path through the aggregation pipeline.\<close>

definition searchAggregate :: "store \<Rightarrow> params \<Rightarrow> query \<Rightarrow> comparison \<Rightarrow> response" where
  "searchAggregate st req q caloriesQuery =
     (let page = param_or (param_page req) 1;
          limit = param_or (param_limit req) 15
      in case aggregate_count st (aggregationPipeline q caloriesQuery @ [Count]) of
           Inl m \<Rightarrow> server_error (StoreError m)
         | Inr countResult \<Rightarrow>
             (let total' = (case countResult of [] \<Rightarrow> 0 | t # _ \<Rightarrow> t)
              in case aggregate st
                        (aggregationPipeline q caloriesQuery @
                         [SortByRatingDesc,
                          Skip (js_mul (js_sub (ToNumber page) (Num 1)) (ToNumber limit)),
                          Limit (parseInt_q limit)]) of
                   Inl m \<Rightarrow> server_error (StoreError m)
                 | Inr recipes \<Rightarrow>
                     Success \<lparr>res_count = length recipes, res_total = total',
                              res_page = parseInt_q page,
                              res_totalPages =
                                Math_ceil (js_div (Num (of_nat total')) (ToNumber limit)),
                              res_data = recipes\<rparr>))"

text \<open>Lines 135 to 150: the direct filtered query.\<close>

definition searchFind :: "store \<Rightarrow> params \<Rightarrow> query \<Rightarrow> response" where
  "searchFind st req q =
     (let page = param_or (param_page req) 1;
          limit = param_or (param_limit req) 15
      in case countDocuments st q of
           Inl m \<Rightarrow> server_error (StoreError m)
         | Inr total' \<Rightarrow>
             (case find_sort_skip_limit st q
                     (js_mul (js_sub (ToNumber page) (Num 1)) (ToNumber limit))
                     (parseInt_q limit) of
                Inl m \<Rightarrow> server_error (StoreError m)
              | Inr recipes \<Rightarrow>
                  Success \<lparr>res_count = length recipes, res_total = total',
                           res_page = parseInt_q page,
                           res_totalPages =
                             Math_ceil (js_div (Num (of_nat total')) (ToNumber limit)),
                           res_data = recipes\<rparr>))"

text \<open>
  \<^verbatim>\<open>searchRecipes\<close>: the filter is built first (a pattern that does not compile
  throws into the \<^verbatim>\<open>catch\<close> block); the aggregation path is entered when the
  \<^verbatim>\<open>calories\<close> parameter is truthy and so is what the comparison parser makes of it;
  otherwise control falls through to the direct query.
\<close>

definition searchRecipes :: "store \<Rightarrow> params \<Rightarrow> response" where
  "searchRecipes st req =
     (case buildQuery req of
        Threw e \<Rightarrow> server_error e
      | OutsideFragment \<Rightarrow> NotModelled
      | Done q \<Rightarrow>
          (case comparison_filter (param_calories req) of
             Some caloriesQuery \<Rightarrow> searchAggregate st req q caloriesQuery
           | None \<Rightarrow> searchFind st req q))"

text \<open>Fixtures: a request without parameters and a document without attributes.\<close>

definition no_params :: params where
  "no_params = \<lparr>param_calories = None, param_title = None, param_cuisine = None,
                 param_total_time = None, param_rating = None, param_page = None,
                 param_limit = None\<rparr>"

definition blank_recipe :: recipe where
  "blank_recipe = \<lparr>rid = 0, cuisine = None, title = None, rating = None, prep_time = None,
                    cook_time = None, total_time = None, description = None,
                    nutrients = None, serves = None, ingredients = [], instructions = [],
                    caloriesValue = None\<rparr>"

text \<open>Whether a record passes the filter that a request builds.\<close>

definition filter_accepts :: "params \<Rightarrow> recipe \<Rightarrow> bool" where
  "filter_accepts req r = (case buildQuery req of Done q \<Rightarrow> query_matches q r | _ \<Rightarrow> False)"

text \<open>A pattern character that the pattern syntax gives no special meaning.\<close>

definition plain_char :: "char \<Rightarrow> bool" where
  "plain_char c = (c \<notin> set ''()|*+?.[{^$'' \<and> c \<noteq> CHR 0x5C)"

definition plain_text :: "string \<Rightarrow> bool" where
  "plain_text p = list_all plain_char p"

text \<open>The records and the request of the combined-filter scenario.\<close>

definition recipe_A :: recipe where
  "recipe_A = blank_recipe\<lparr>rid := 1, title := Some ''A'', rating := Some 4.8,
                total_time := Some 35, nutrients := Some [(''calories'', ''380 kcal'')]\<rparr>"

definition recipe_B :: recipe where
  "recipe_B = blank_recipe\<lparr>rid := 2, title := Some ''B'', rating := Some 4.2,
                total_time := Some 50, nutrients := Some [(''calories'', ''600 kcal'')]\<rparr>"

definition recipe_C :: recipe where
  "recipe_C = blank_recipe\<lparr>rid := 3, title := Some ''C'', rating := Some 4.9,
                total_time := Some 20\<rparr>"

definition combined_request :: params where
  "combined_request = no_params\<lparr>param_rating := Some ''>=4.5'',
                        param_total_time := Some ''<=40'', param_calories := Some ''<=400''\<rparr>"

text \<open>The success body of a response, if it has one.\<close>

definition body_of :: "response \<Rightarrow> body option" where
  "body_of res = (case res of Success b \<Rightarrow> Some b | _ \<Rightarrow> None)"



definition failing_store :: "string \<Rightarrow> store" where
  "failing_store m =
     \<lparr>countDocuments = (\<lambda>q. Inl m), find_sort_skip_limit = (\<lambda>q s l. Inl m),
      aggregate = (\<lambda>p. Inl m), aggregate_count = (\<lambda>p. Inl m)\<rparr>"

text \<open>The expression that matches a text character by character (letter case ignored).\<close>

definition literal :: "string \<Rightarrow> regex" where
  "literal p = foldr (\<lambda>c acc. Seq (Chr c) acc) p Eps"



text \<open>The identifiers of the records a response returns, in order.\<close>

definition returned_ids :: "response \<Rightarrow> nat list" where
  "returned_ids res = (case res of Success b \<Rightarrow> map rid (res_data b) | _ \<Rightarrow> [])"





section \<open>The comparison parser: examples and operator priority\<close>

text \<open>
  Claim C1. The comparison parser returns: for \<^verbatim>\<open>">=4.5"\<close> a greater-or-equal predicate
  with operand 4.5; for \<^verbatim>\<open>"<=60"\<close> a less-or-equal predicate with operand 60; for
  \<^verbatim>\<open>"==5"\<close> the bare number 5; for \<^verbatim>\<open>"30"\<close> the bare number 30; for the empty
  string null. The two-character operators are tested first: whatever follows, a string
  that starts with \<^verbatim>\<open>>=\<close> gives a greater-or-equal predicate (never greater-than), and
  one that starts with \<^verbatim>\<open><=\<close> a less-or-equal predicate (never less-than).
\<close>

theorem parseComparisonQuery_examples_and_priority:
  "parseComparisonQuery ''>=4.5'' = Gte (Num 4.5) \<and>
   parseComparisonQuery ''<=60'' = Lte (Num 60) \<and>
   parseComparisonQuery ''==5'' = Bare (Num 5) \<and>
   parseComparisonQuery ''30'' = Bare (Num 30) \<and>
   parseComparisonQuery '''' = Null \<and>
   (\<forall>rest. parseComparisonQuery (''>='' @ rest) = Gte (parseFloat rest)) \<and>
   (\<forall>rest. parseComparisonQuery (''<='' @ rest) = Lte (parseFloat rest))"
proof -
  have e1: "parseComparisonQuery ''>=4.5'' = Gte (Num 4.5)" by code_simp
  have e2: "parseComparisonQuery ''<=60'' = Lte (Num 60)" by code_simp
  have e3: "parseComparisonQuery ''==5'' = Bare (Num 5)" by code_simp
  have e4: "parseComparisonQuery ''30'' = Bare (Num 30)" by code_simp
  have e5: "parseComparisonQuery '''' = Null" by (simp add: parseComparisonQuery_def)
  have p1: "parseComparisonQuery (''>='' @ rest) = Gte (parseFloat rest)" for rest
    by (simp add: parseComparisonQuery_def startsWith_def substring_def)
  have p2: "parseComparisonQuery (''<='' @ rest) = Lte (parseFloat rest)" for rest
    by (simp add: parseComparisonQuery_def startsWith_def substring_def)
  from e1 e2 e3 e4 e5 p1 p2 show ?thesis by blast
qed

section \<open>Attaching the parsed predicates\<close>

text \<open>
  Claim C2, at the request \<^verbatim>\<open>rating=0\<close> (and \<^verbatim>\<open>total_time===0\<close>): the comparison
  parser yields the bare number 0, yet the filter that is built constrains neither field,
  because the guard \<^verbatim>\<open>if (ratingQuery)\<close> takes the number 0 for "nothing".
\<close>

theorem zero_filter_is_dropped:
  "parseComparisonQuery ''0'' = Bare (Num 0) \<and>
   parseComparisonQuery ''==0'' = Bare (Num 0) \<and>
   buildQuery (no_params\<lparr>param_rating := Some ''0''\<rparr>) = Done empty_query \<and>
   buildQuery (no_params\<lparr>param_total_time := Some ''==0''\<rparr>) = Done empty_query \<and>
   filter_accepts (no_params\<lparr>param_rating := Some ''0''\<rparr>) (blank_recipe\<lparr>rating := Some 3\<rparr>)"
proof -
  have a: "parseComparisonQuery ''0'' = Bare (Num 0)" by code_simp
  have b: "parseComparisonQuery ''==0'' = Bare (Num 0)" by code_simp
  have c: "buildQuery (no_params\<lparr>param_rating := Some ''0''\<rparr>) = Done empty_query"
    by (simp add: buildQuery_def regex_filter_def comparison_filter_def no_params_def
        empty_query_def a truthy_def truthy_num_def)
  have d: "buildQuery (no_params\<lparr>param_total_time := Some ''==0''\<rparr>) = Done empty_query"
    by (simp add: buildQuery_def regex_filter_def comparison_filter_def no_params_def
        empty_query_def b truthy_def truthy_num_def)
  have e: "filter_accepts (no_params\<lparr>param_rating := Some ''0''\<rparr>)
             (blank_recipe\<lparr>rating := Some 3\<rparr>)"
    by (simp add: filter_accepts_def c empty_query_def query_matches_def regex_holds_def
        comparison_holds_def)
  from a b c d e show ?thesis by blast
qed

section \<open>Which execution path a search takes\<close>





section \<open>The calories derivation\<close>

lemma is_digit_not_space: "is_digit c \<Longrightarrow> c \<noteq> CHR '' ''"
  by (auto simp: is_digit_def)

lemma replaceAll_nil: "replaceAll [] f r = []"
  by (subst replaceAll.simps) simp

lemma replaceAll_kcal_only: "replaceAll '' kcal'' '' kcal'' [] = []"
  by (subst replaceAll.simps) (simp add: startsWith_def replaceAll_nil)

lemma replaceAll_digits_kcal:
  "list_all is_digit ds \<Longrightarrow> replaceAll (ds @ '' kcal'') '' kcal'' [] = ds"
proof (induction ds)
  case Nil
  then show ?case by (simp add: replaceAll_kcal_only)
next
  case (Cons d ds)
  then have "d \<noteq> CHR '' ''" by (simp add: is_digit_not_space)
  then have "\<not> startsWith ((d # ds) @ '' kcal'') '' kcal''"
    by (simp add: startsWith_def)
  then have "replaceAll ((d # ds) @ '' kcal'') '' kcal'' [] =
               d # replaceAll (ds @ '' kcal'') '' kcal'' []"
    by (subst replaceAll.simps) simp
  with Cons show ?case by simp
qed

lemma is_digit_not_trim: "is_digit c \<Longrightarrow> \<not> is_trim_char c"
  by (auto simp: is_digit_def is_trim_char_def)

lemma trim_digits:
  assumes ne: "ds \<noteq> []" and dg: "list_all is_digit ds"
  shows "trim ds = ds"
proof -
  from ne obtain d rest where ds: "ds = d # rest" by (cases ds) auto
  with dg have "\<not> is_trim_char d" by (simp add: is_digit_not_trim)
  then have front: "dropWhile is_trim_char ds = ds" by (simp add: ds)
  from ne obtain l init where rv: "rev ds = l # init" by (cases "rev ds") auto
  then have "l \<in> set ds" by (metis list.set_intros(1) set_rev)
  with dg have "\<not> is_trim_char l" by (simp add: is_digit_not_trim list_all_iff)
  then have "dropWhile is_trim_char (rev ds) = rev ds" by (simp add: rv)
  with front show ?thesis by (simp add: trim_def)
qed

lemma toDouble_digits:
  assumes ne: "ds \<noteq> []" and dg: "list_all is_digit ds"
  shows "toDouble ds = Some (of_nat (digits_val ds))"
proof -
  from ne obtain d rest where ds: "ds = d # rest" by (cases ds) auto
  with dg have d: "is_digit d" by simp
  then have nd: "d \<noteq> CHR ''-''" "d \<noteq> CHR ''+''" "d \<noteq> CHR ''I''"
    by (auto simp: is_digit_def)
  from dg have tw: "takeWhile is_digit ds = ds" and dw: "dropWhile is_digit ds = []"
    by (simp_all add: list_all_iff)
  have "scan_decimal ds = Some (of_nat (digits_val ds), [])"
    using ne by (simp add: scan_decimal_def tw dw scan_exponent_def pow10_def)
  moreover have "\<not> startsWith ds ''Infinity''"
    using nd by (simp add: startsWith_def ds)
  ultimately have "scan_signed ds = Some (Num (of_nat (digits_val ds)), [])"
    using nd by (simp add: scan_signed_def scan_unsigned_def ds)
  then show ?thesis by (simp add: toDouble_def)
qed

lemma eval_calories_entry:
  "nutrients r = Some m \<Longrightarrow> map_of m ''calories'' = Some s \<Longrightarrow>
   eval_expr r calories_expr =
     (case toDouble (trim (replaceAll s '' kcal'' [])) of
        None \<Rightarrow> Inl ''Failed to parse number in $convert''
      | Some d \<Rightarrow> Inr (BDouble d))"
  by (simp add: calories_expr_def)

lemma eval_calories_absent:
  assumes "nutrients r = None \<or> (\<exists>m. nutrients r = Some m \<and> map_of m ''calories'' = None)"
  shows "eval_expr r calories_expr = Inr (BDouble 0)"
proof -
  have z: "toDouble (trim (replaceAll ''0'' '' kcal'' [])) = Some 0" by code_simp
  from assms show ?thesis by (auto simp: calories_expr_def z)
qed

text \<open>
  Claim C4. The derivation that the computed-field path applies to each record maps the
  nutrients entry \<^verbatim>\<open>calories: "450 kcal"\<close> to the number 450 and an absent entry (no
  nutrients, or nutrients without \<^verbatim>\<open>calories\<close>) to the number 0. More generally, an
  entry made of decimal digits followed by \<^verbatim>\<open>" kcal"\<close> derives to the number the digits
  denote: the suffix is stripped, the rest is trimmed and parsed as a decimal number.
  The stage \<^verbatim>\<open>$addFields\<close> stores the derived value as \<^verbatim>\<open>caloriesValue\<close>.
\<close>

theorem calories_derivation:
  "(nutrients r = Some m \<and> map_of m ''calories'' = Some ''450 kcal'' \<longrightarrow>
      eval_expr r calories_expr = Inr (BDouble 450)) \<and>
   (nutrients r = Some m \<and> map_of m ''calories'' = Some (ds @ '' kcal'') \<and> ds \<noteq> [] \<and>
    list_all is_digit ds \<longrightarrow>
      eval_expr r calories_expr = Inr (BDouble (of_nat (digits_val ds)))) \<and>
   (nutrients r = None \<longrightarrow> eval_expr r calories_expr = Inr (BDouble 0)) \<and>
   (nutrients r = Some m \<and> map_of m ''calories'' = None \<longrightarrow>
      eval_expr r calories_expr = Inr (BDouble 0)) \<and>
   (eval_expr r calories_expr = Inr v \<longrightarrow>
      run_stage (AddCaloriesValue calories_expr) [r] = Inr [r\<lparr>caloriesValue := Some v\<rparr>])"
proof (intro conjI impI)
  have e: "toDouble (trim (replaceAll ''450 kcal'' '' kcal'' [])) = Some 450" by code_simp
  assume "nutrients r = Some m \<and> map_of m ''calories'' = Some ''450 kcal''"
  then show "eval_expr r calories_expr = Inr (BDouble 450)"
    by (simp add: eval_calories_entry e)
next
  assume a: "nutrients r = Some m \<and> map_of m ''calories'' = Some (ds @ '' kcal'') \<and> ds \<noteq> [] \<and>
    list_all is_digit ds"
  then have "toDouble (trim (replaceAll (ds @ '' kcal'') '' kcal'' [])) =
               Some (of_nat (digits_val ds))"
    by (simp add: replaceAll_digits_kcal trim_digits toDouble_digits)
  with a show "eval_expr r calories_expr = Inr (BDouble (of_nat (digits_val ds)))"
    by (simp add: eval_calories_entry)
next
  assume "nutrients r = None"
  then show "eval_expr r calories_expr = Inr (BDouble 0)"
    by (simp add: eval_calories_absent)
next
  assume "nutrients r = Some m \<and> map_of m ''calories'' = None"
  then show "eval_expr r calories_expr = Inr (BDouble 0)"
    by (simp add: eval_calories_absent)
next
  assume "eval_expr r calories_expr = Inr v"
  then show "run_stage (AddCaloriesValue calories_expr) [r] = Inr [r\<lparr>caloriesValue := Some v\<rparr>]"
    by (simp add: run_stage_def)
qed

theorem calories_derivation_witness:
  "eval_expr (blank_recipe\<lparr>nutrients := Some [(''calories'', ''450 kcal'')]\<rparr>) calories_expr =
     Inr (BDouble 450) \<and>
   eval_expr blank_recipe calories_expr = Inr (BDouble 0) \<and>
   run_stage (AddCaloriesValue calories_expr) [blank_recipe] =
     Inr [blank_recipe\<lparr>caloriesValue := Some (BDouble 0)\<rparr>]"
proof -
  have n: "nutrients blank_recipe = None" by (simp add: blank_recipe_def)
  have 1: "eval_expr (blank_recipe\<lparr>nutrients := Some [(''calories'', ''450 kcal'')]\<rparr>)
             calories_expr = Inr (BDouble 450)"
    using calories_derivation[where r = "blank_recipe\<lparr>nutrients := Some [(''calories'', ''450 kcal'')]\<rparr>"
        and m = "[(''calories'', ''450 kcal'')]"]
    by simp
  have 2: "eval_expr blank_recipe calories_expr = Inr (BDouble 0)"
    using calories_derivation[where r = blank_recipe] n by simp
  have 3: "run_stage (AddCaloriesValue calories_expr) [blank_recipe] =
     Inr [blank_recipe\<lparr>caloriesValue := Some (BDouble 0)\<rparr>]"
    using calories_derivation[where r = blank_recipe and v = "BDouble 0"] 2 by simp
  from 1 2 3 show ?thesis by blast
qed

section \<open>The combined-filter scenario\<close>

text \<open>
  Claim C5, refuted as stated: on the store holding A, B and C (C without a calories
  entry), the combined search reports a total of 2 and returns C and A, not A alone:
  the absent entry of C derives to 0 calories, which satisfies \<^verbatim>\<open><=400\<close>.
\<close>

theorem combined_scenario_returns_two:
  "map_option res_total
     (body_of (searchRecipes (collection [recipe_A, recipe_B, recipe_C]) combined_request)) =
     Some 2 \<and>
   returned_ids (searchRecipes (collection [recipe_A, recipe_B, recipe_C]) combined_request) =
     [3, 1] \<and>
   rid recipe_C = 3 \<and> rid recipe_A = 1"
proof -
  have 1: "map_option res_total
     (body_of (searchRecipes (collection [recipe_A, recipe_B, recipe_C]) combined_request)) =
     Some 2"
    by code_simp
  have 2: "returned_ids (searchRecipes (collection [recipe_A, recipe_B, recipe_C])
             combined_request) = [3, 1]"
    by code_simp
  have 3: "rid recipe_C = 3 \<and> rid recipe_A = 1"
    by (simp add: recipe_A_def recipe_C_def)
  from 1 2 3 show ?thesis by blast
qed

text \<open>
  Claim C5, amended. Given a store holding exactly the records A (rating 4.8, total time
  35, 380 kcal), B (rating 4.2, total time 50, 600 kcal) and C (rating 4.9, total time 20,
  no calories entry), in whatever order it yields them, the search with
  \<^verbatim>\<open>rating=>=4.5\<close>, \<^verbatim>\<open>total_time=<=40\<close>, \<^verbatim>\<open>calories=<=400\<close> returns a successful
  response whose data is C followed by A and whose total is 2.
\<close>

theorem combined_scenario:
  "searchRecipes (collection [recipe_A, recipe_B, recipe_C]) combined_request =
     Success \<lparr>res_count = 2, res_total = 2, res_page = Num 1, res_totalPages = Num 1,
              res_data = [recipe_C, recipe_A]\<rparr> \<and>
   searchRecipes (collection [recipe_A, recipe_C, recipe_B]) combined_request =
     Success \<lparr>res_count = 2, res_total = 2, res_page = Num 1, res_totalPages = Num 1,
              res_data = [recipe_C, recipe_A]\<rparr> \<and>
   searchRecipes (collection [recipe_B, recipe_A, recipe_C]) combined_request =
     Success \<lparr>res_count = 2, res_total = 2, res_page = Num 1, res_totalPages = Num 1,
              res_data = [recipe_C, recipe_A]\<rparr> \<and>
   searchRecipes (collection [recipe_B, recipe_C, recipe_A]) combined_request =
     Success \<lparr>res_count = 2, res_total = 2, res_page = Num 1, res_totalPages = Num 1,
              res_data = [recipe_C, recipe_A]\<rparr> \<and>
   searchRecipes (collection [recipe_C, recipe_A, recipe_B]) combined_request =
     Success \<lparr>res_count = 2, res_total = 2, res_page = Num 1, res_totalPages = Num 1,
              res_data = [recipe_C, recipe_A]\<rparr> \<and>
   searchRecipes (collection [recipe_C, recipe_B, recipe_A]) combined_request =
     Success \<lparr>res_count = 2, res_total = 2, res_page = Num 1, res_totalPages = Num 1,
              res_data = [recipe_C, recipe_A]\<rparr>"
proof -
  have 1: "searchRecipes (collection [recipe_A, recipe_B, recipe_C]) combined_request =
     Success \<lparr>res_count = 2, res_total = 2, res_page = Num 1, res_totalPages = Num 1,
              res_data = [recipe_C, recipe_A]\<rparr>"
    by code_simp
  have 2: "searchRecipes (collection [recipe_A, recipe_C, recipe_B]) combined_request =
     Success \<lparr>res_count = 2, res_total = 2, res_page = Num 1, res_totalPages = Num 1,
              res_data = [recipe_C, recipe_A]\<rparr>"
    by code_simp
  have 3: "searchRecipes (collection [recipe_B, recipe_A, recipe_C]) combined_request =
     Success \<lparr>res_count = 2, res_total = 2, res_page = Num 1, res_totalPages = Num 1,
              res_data = [recipe_C, recipe_A]\<rparr>"
    by code_simp
  have 4: "searchRecipes (collection [recipe_B, recipe_C, recipe_A]) combined_request =
     Success \<lparr>res_count = 2, res_total = 2, res_page = Num 1, res_totalPages = Num 1,
              res_data = [recipe_C, recipe_A]\<rparr>"
    by code_simp
  have 5: "searchRecipes (collection [recipe_C, recipe_A, recipe_B]) combined_request =
     Success \<lparr>res_count = 2, res_total = 2, res_page = Num 1, res_totalPages = Num 1,
              res_data = [recipe_C, recipe_A]\<rparr>"
    by code_simp
  have 6: "searchRecipes (collection [recipe_C, recipe_B, recipe_A]) combined_request =
     Success \<lparr>res_count = 2, res_total = 2, res_page = Num 1, res_totalPages = Num 1,
              res_data = [recipe_C, recipe_A]\<rparr>"
    by code_simp
  from 1 2 3 4 5 6 show ?thesis by blast
qed

section \<open>Text filters are regular expressions\<close>

lemma matches_prefix_Zero: "matches_prefix Zero s = False"
  by (induction s) auto

lemma matches_prefix_Alt:
  "matches_prefix (Alt a b) s = (matches_prefix a s \<or> matches_prefix b s)"
  by (induction s arbitrary: a b) auto

lemma matches_prefix_Seq_Zero: "matches_prefix (Seq Zero r) s = False"
  by (induction s) auto

lemma matches_prefix_Seq_Eps: "matches_prefix (Seq Eps r) s = matches_prefix r s"
  by (cases s) (auto simp: matches_prefix_Alt matches_prefix_Seq_Zero)

lemma matches_prefix_literal: "matches_prefix (literal p) s = ci_prefix p s"
proof (induction p arbitrary: s)
  case Nil
  show ?case by (cases s) (simp_all add: literal_def ci_prefix_def)
next
  case (Cons a p)
  show ?case
  proof (cases s)
    case Nil
    then show ?thesis by (simp add: literal_def ci_prefix_def)
  next
    case (Cons c s')
    have "matches_prefix (literal (a # p)) (c # s') =
            (Canonicalize c = Canonicalize a \<and> matches_prefix (literal p) s')"
      by (simp add: literal_def matches_prefix_Seq_Eps matches_prefix_Seq_Zero)
    also have "\<dots> = ci_prefix (a # p) (c # s')"
      by (auto simp: Cons.IH ci_prefix_def)
    finally show ?thesis by (simp add: Cons)
  qed
qed

lemma regex_test_literal: "regex_test (literal p) s = ci_substring p s"
  by (induction s) (simp_all add: matches_prefix_literal del: matches_prefix.simps)

lemma plain_char_cases:
  "plain_char c \<Longrightarrow>
     c \<noteq> CHR ''('' \<and> c \<noteq> CHR '')'' \<and> c \<noteq> CHR ''|'' \<and> c \<noteq> CHR ''*'' \<and> c \<noteq> CHR ''+'' \<and>
     c \<noteq> CHR ''?'' \<and> c \<noteq> CHR ''.'' \<and> c \<noteq> CHR 0x5C \<and> c \<noteq> CHR ''['' \<and> c \<noteq> CHR ''{'' \<and>
     c \<noteq> CHR ''^'' \<and> c \<noteq> CHR ''$''"
  by (simp add: plain_char_def)

lemma parse_plain:
  "plain_text p \<Longrightarrow>
   parse_pattern stack (Frame alts ts q) p =
     parse_pattern stack (Frame alts (rev (map Chr p) @ ts) (if p = [] then q else Atom)) []"
proof (induction p arbitrary: ts q)
  case Nil
  show ?case by simp
next
  case (Cons c p)
  then have pc: "plain_char c" and pt: "plain_text p" by (simp_all add: plain_text_def)
  have "parse_pattern stack (Frame alts ts q) (c # p) =
          parse_pattern stack (Frame alts (Chr c # ts) Atom) p"
    using plain_char_cases[OF pc] by (simp add: push_atom_def)
  also have "\<dots> = parse_pattern stack (Frame alts (rev (map Chr p) @ Chr c # ts) Atom) []"
    using Cons.IH[OF pt, of "Chr c # ts" Atom] by (simp del: parse_pattern.simps)
  finally show ?case by (simp del: parse_pattern.simps)
qed

lemma seq_of_rev: "seq_of (rev (map Chr p)) = literal p"
  by (simp add: seq_of_def literal_def foldl_conv_foldr foldr_map comp_def)

lemma RegExp_plain: "plain_text p \<Longrightarrow> RegExp p = Compiled (literal p)"
  by (simp add: RegExp_def parse_plain close_frame_def seq_of_rev)

text \<open>
  The recursive \<open>ci_substring\<close> says what the words say: the subject splits into three
  parts, the middle one equal to the text up to letter case.
\<close>

lemma ci_prefix_iff:
  "ci_prefix p t = (\<exists>v w. t = v @ w \<and> map Canonicalize v = map Canonicalize p)"
proof
  assume "ci_prefix p t"
  then have "t = take (length p) t @ drop (length p) t \<and>
             map Canonicalize (take (length p) t) = map Canonicalize p"
    by (simp add: ci_prefix_def)
  then show "\<exists>v w. t = v @ w \<and> map Canonicalize v = map Canonicalize p" by blast
next
  assume "\<exists>v w. t = v @ w \<and> map Canonicalize v = map Canonicalize p"
  then obtain v w where t: "t = v @ w" and m: "map Canonicalize v = map Canonicalize p"
    by blast
  from m have "length v = length p" by (metis length_map)
  with t m show "ci_prefix p t" by (simp add: ci_prefix_def)
qed

lemma ci_substring_iff:
  "ci_substring p s = (\<exists>u v w. s = u @ v @ w \<and> map Canonicalize v = map Canonicalize p)"
proof (induction s)
  case Nil
  show ?case by (auto simp: ci_prefix_def)
next
  case (Cons c s)
  show ?case
  proof
    assume "ci_substring p (c # s)"
    then consider "ci_prefix p (c # s)" | "ci_substring p s" by auto
    then show "\<exists>u v w. c # s = u @ v @ w \<and> map Canonicalize v = map Canonicalize p"
    proof cases
      case 1
      then obtain v w where "c # s = v @ w" "map Canonicalize v = map Canonicalize p"
        using ci_prefix_iff by blast
      then have "c # s = [] @ v @ w \<and> map Canonicalize v = map Canonicalize p" by simp
      then show ?thesis by blast
    next
      case 2
      then obtain u v w where "s = u @ v @ w" "map Canonicalize v = map Canonicalize p"
        using Cons.IH by blast
      then have "c # s = (c # u) @ v @ w \<and> map Canonicalize v = map Canonicalize p" by simp
      then show ?thesis by blast
    qed
  next
    assume "\<exists>u v w. c # s = u @ v @ w \<and> map Canonicalize v = map Canonicalize p"
    then obtain u v w where e: "c # s = u @ v @ w"
      and m: "map Canonicalize v = map Canonicalize p"
      by blast
    show "ci_substring p (c # s)"
    proof (cases u)
      case Nil
      with e m have "ci_prefix p (c # s)" using ci_prefix_iff by auto
      then show ?thesis by simp
    next
      case (Cons d u')
      with e have "s = u' @ v @ w" by simp
      with m have "ci_substring p s" using Cons.IH by blast
      then show ?thesis by simp
    qed
  qed
qed

lemma nullable_regex_test: "nullable r \<Longrightarrow> regex_test r s"
  by (cases s) simp_all

lemma RegExp_dot_star: "RegExp ''.*'' = Compiled (Seq (Star Dot) Eps)"
  by (simp add: RegExp_def push_atom_def close_frame_def seq_of_def quantify_def
      quantified_def)

lemma RegExp_open_paren: "RegExp ''('' = SyntaxError"
  by (simp add: RegExp_def)

lemma buildQuery_title_only:
  "p \<noteq> [] \<Longrightarrow> RegExp p = Compiled r \<Longrightarrow>
   buildQuery (no_params\<lparr>param_title := Some p\<rparr>) = Done (empty_query\<lparr>query_title := Some r\<rparr>)"
  by (simp add: buildQuery_def regex_filter_def comparison_filter_def no_params_def
      empty_query_def)

lemma buildQuery_cuisine_only:
  "p \<noteq> [] \<Longrightarrow> RegExp p = Compiled r \<Longrightarrow>
   buildQuery (no_params\<lparr>param_cuisine := Some p\<rparr>) =
     Done (empty_query\<lparr>query_cuisine := Some r\<rparr>)"
  by (simp add: buildQuery_def regex_filter_def comparison_filter_def no_params_def
      empty_query_def)

lemma filter_accepts_title_only:
  "p \<noteq> [] \<Longrightarrow> RegExp p = Compiled r \<Longrightarrow>
   filter_accepts (no_params\<lparr>param_title := Some p\<rparr>) x =
     (case title x of None \<Rightarrow> False | Some s \<Rightarrow> regex_test r s)"
  by (simp add: filter_accepts_def buildQuery_title_only query_matches_def empty_query_def
      regex_holds_def comparison_holds_def split: option.splits)

lemma filter_accepts_cuisine_only:
  "p \<noteq> [] \<Longrightarrow> RegExp p = Compiled r \<Longrightarrow>
   filter_accepts (no_params\<lparr>param_cuisine := Some p\<rparr>) x =
     (case cuisine x of None \<Rightarrow> False | Some s \<Rightarrow> regex_test r s)"
  by (simp add: filter_accepts_def buildQuery_cuisine_only query_matches_def empty_query_def
      regex_holds_def comparison_holds_def split: option.splits)

lemma buildQuery_title_compiled:
  "buildQuery req = Done q \<Longrightarrow> param_title req = Some p \<Longrightarrow> p \<noteq> [] \<Longrightarrow>
   \<exists>r. RegExp p = Compiled r \<and> query_title q = Some r"
  by (auto simp: buildQuery_def regex_filter_def
      split: attempt.splits regexp_result.splits option.splits if_splits)

lemma buildQuery_cuisine_compiled:
  "buildQuery req = Done q \<Longrightarrow> param_cuisine req = Some p \<Longrightarrow> p \<noteq> [] \<Longrightarrow>
   \<exists>r. RegExp p = Compiled r \<and> query_cuisine q = Some r"
  by (auto simp: buildQuery_def regex_filter_def
      split: attempt.splits regexp_result.splits option.splits if_splits)

lemma buildQuery_Threw:
  "buildQuery req = Threw e \<Longrightarrow>
   \<exists>p. e = RegExpSyntaxError p \<and> RegExp p = SyntaxError \<and>
       (param_cuisine req = Some p \<or> param_title req = Some p)"
  by (auto simp: buildQuery_def regex_filter_def
      split: attempt.splits regexp_result.splits option.splits if_splits)

lemma invalid_title_500:
  "param_title req = Some p \<Longrightarrow> p \<noteq> [] \<Longrightarrow> RegExp p = SyntaxError \<Longrightarrow>
   regex_filter (param_cuisine req) = Done c \<Longrightarrow>
   searchRecipes st req = Failure 500 ''Server Error'' (RegExpSyntaxError p)"
  by (simp add: searchRecipes_def buildQuery_def regex_filter_def server_error_def)

lemma invalid_cuisine_500:
  "param_cuisine req = Some p \<Longrightarrow> p \<noteq> [] \<Longrightarrow> RegExp p = SyntaxError \<Longrightarrow>
   searchRecipes st req = Failure 500 ''Server Error'' (RegExpSyntaxError p)"
  by (simp add: searchRecipes_def buildQuery_def regex_filter_def server_error_def)

lemma no_filters_match_all:
  "param_calories req = None \<Longrightarrow> param_title req = None \<Longrightarrow> param_cuisine req = None \<Longrightarrow>
   param_total_time req = None \<Longrightarrow> param_rating req = None \<Longrightarrow>
   buildQuery req = Done empty_query \<and> query_matches empty_query r"
  by (simp add: buildQuery_def regex_filter_def comparison_filter_def empty_query_def
      query_matches_def regex_holds_def comparison_holds_def)

text \<open>
  Claim C6, refuted as stated: the request \<^verbatim>\<open>title=a.c\<close> matches a record titled
  \<^verbatim>\<open>abc\<close>, whose title does not contain the text \<^verbatim>\<open>a.c\<close>.
\<close>

theorem title_filter_is_not_substring_match:
  "filter_accepts (no_params\<lparr>param_title := Some ''a.c''\<rparr>) (blank_recipe\<lparr>title := Some ''abc''\<rparr>) \<and>
   \<not> ci_substring ''a.c'' ''abc''"
  by code_simp

text \<open>
  Claim C6, amended. For every search request where title (respectively cuisine) is
  present, non-empty and free of regular-expression syntax characters, the title
  (cuisine) predicate of the composite filter holds exactly of the records whose title
  (cuisine) contains the text as a substring, letter case ignored; so a request with
  only such a title matches exactly those records: \<^verbatim>\<open>title=pie\<close> matches the titles
  "Apple Pie", "PIE night" and "shepherd's pie" and not "Cake". A request without
  filter fields builds a filter that matches every record.
\<close>

theorem plain_text_filter_is_substring_match:
  "(plain_text word \<and> word \<noteq> [] \<and> buildQuery req = Done q \<and> param_title req = Some word \<longrightarrow>
      regex_holds (query_title q) (title r) =
        (case title r of None \<Rightarrow> False | Some s \<Rightarrow> ci_substring word s)) \<and>
   (plain_text word \<and> word \<noteq> [] \<and> buildQuery req = Done q \<and> param_cuisine req = Some word \<longrightarrow>
      regex_holds (query_cuisine q) (cuisine r) =
        (case cuisine r of None \<Rightarrow> False | Some s \<Rightarrow> ci_substring word s)) \<and>
   (plain_text word \<and> word \<noteq> [] \<longrightarrow>
      filter_accepts (no_params\<lparr>param_title := Some word\<rparr>) r =
        (case title r of None \<Rightarrow> False | Some s \<Rightarrow> ci_substring word s)) \<and>
   (plain_text word \<and> word \<noteq> [] \<longrightarrow>
      filter_accepts (no_params\<lparr>param_cuisine := Some word\<rparr>) r =
        (case cuisine r of None \<Rightarrow> False | Some s \<Rightarrow> ci_substring word s)) \<and>
   filter_accepts (no_params\<lparr>param_title := Some ''pie''\<rparr>)
     (blank_recipe\<lparr>title := Some ''Apple Pie''\<rparr>) \<and>
   filter_accepts (no_params\<lparr>param_title := Some ''pie''\<rparr>)
     (blank_recipe\<lparr>title := Some ''PIE night''\<rparr>) \<and>
   filter_accepts (no_params\<lparr>param_title := Some ''pie''\<rparr>)
     (blank_recipe\<lparr>title := Some ''shepherd's pie''\<rparr>) \<and>
   \<not> filter_accepts (no_params\<lparr>param_title := Some ''pie''\<rparr>)
     (blank_recipe\<lparr>title := Some ''Cake''\<rparr>) \<and>
   (param_calories req = None \<and> param_title req = None \<and> param_cuisine req = None \<and>
    param_total_time req = None \<and> param_rating req = None \<longrightarrow>
      buildQuery req = Done empty_query \<and> query_matches empty_query r)"
proof (intro conjI impI)
  assume a: "plain_text word \<and> word \<noteq> [] \<and> buildQuery req = Done q \<and> param_title req = Some word"
  then obtain re where "RegExp word = Compiled re" "query_title q = Some re"
    using buildQuery_title_compiled by blast
  with a have "query_title q = Some (literal word)" by (simp add: RegExp_plain)
  then show "regex_holds (query_title q) (title r) =
        (case title r of None \<Rightarrow> False | Some s \<Rightarrow> ci_substring word s)"
    by (simp add: regex_holds_def regex_test_literal split: option.splits)
next
  assume a: "plain_text word \<and> word \<noteq> [] \<and> buildQuery req = Done q \<and>
             param_cuisine req = Some word"
  then obtain re where "RegExp word = Compiled re" "query_cuisine q = Some re"
    using buildQuery_cuisine_compiled by blast
  with a have "query_cuisine q = Some (literal word)" by (simp add: RegExp_plain)
  then show "regex_holds (query_cuisine q) (cuisine r) =
        (case cuisine r of None \<Rightarrow> False | Some s \<Rightarrow> ci_substring word s)"
    by (simp add: regex_holds_def regex_test_literal split: option.splits)
next
  assume "plain_text word \<and> word \<noteq> []"
  then show "filter_accepts (no_params\<lparr>param_title := Some word\<rparr>) r =
        (case title r of None \<Rightarrow> False | Some s \<Rightarrow> ci_substring word s)"
    by (simp add: filter_accepts_title_only[OF _ RegExp_plain] regex_test_literal
        split: option.splits)
next
  assume "plain_text word \<and> word \<noteq> []"
  then show "filter_accepts (no_params\<lparr>param_cuisine := Some word\<rparr>) r =
        (case cuisine r of None \<Rightarrow> False | Some s \<Rightarrow> ci_substring word s)"
    by (simp add: filter_accepts_cuisine_only[OF _ RegExp_plain] regex_test_literal
        split: option.splits)
next
  show "filter_accepts (no_params\<lparr>param_title := Some ''pie''\<rparr>)
          (blank_recipe\<lparr>title := Some ''Apple Pie''\<rparr>)"
    by code_simp
next
  show "filter_accepts (no_params\<lparr>param_title := Some ''pie''\<rparr>)
          (blank_recipe\<lparr>title := Some ''PIE night''\<rparr>)"
    by code_simp
next
  show "filter_accepts (no_params\<lparr>param_title := Some ''pie''\<rparr>)
          (blank_recipe\<lparr>title := Some ''shepherd's pie''\<rparr>)"
    by code_simp
next
  show "\<not> filter_accepts (no_params\<lparr>param_title := Some ''pie''\<rparr>)
          (blank_recipe\<lparr>title := Some ''Cake''\<rparr>)"
    by code_simp
next
  assume "param_calories req = None \<and> param_title req = None \<and> param_cuisine req = None \<and>
    param_total_time req = None \<and> param_rating req = None"
  then show "buildQuery req = Done empty_query" by (simp add: no_filters_match_all)
next
  show "query_matches empty_query r"
    by (simp add: empty_query_def query_matches_def regex_holds_def comparison_holds_def)
qed

theorem plain_text_filter_is_substring_match_witness:
  "plain_text ''pie'' \<and>
   filter_accepts (no_params\<lparr>param_title := Some ''pie''\<rparr>)
     (blank_recipe\<lparr>title := Some ''Humble PIE''\<rparr>) =
     ci_substring ''pie'' ''Humble PIE'' \<and>
   ci_substring ''pie'' ''Humble PIE'' \<and>
   buildQuery no_params = Done empty_query \<and>
   query_matches empty_query recipe_A"
proof -
  have p: "plain_text ''pie''" by (simp add: plain_text_def plain_char_def)
  have t: "title (blank_recipe\<lparr>title := Some ''Humble PIE''\<rparr>) = Some ''Humble PIE''" by simp
  have 1: "filter_accepts (no_params\<lparr>param_title := Some ''pie''\<rparr>)
     (blank_recipe\<lparr>title := Some ''Humble PIE''\<rparr>) = ci_substring ''pie'' ''Humble PIE''"
    using plain_text_filter_is_substring_match[where word = "''pie''"
        and r = "blank_recipe\<lparr>title := Some ''Humble PIE''\<rparr>"] p
    by (simp only: t option.case) simp
  have 2: "ci_substring ''pie'' ''Humble PIE''" by code_simp
  have 3: "buildQuery no_params = Done empty_query \<and> query_matches empty_query recipe_A"
    using plain_text_filter_is_substring_match[where req = no_params and r = recipe_A]
    by (simp add: no_params_def)
  from p 1 2 3 show ?thesis by blast
qed

text \<open>
  Claim C10. The raw title and cuisine values are compiled as case-insensitive regular
  expressions: whenever the filter builds, the title (cuisine) predicate is the compiled
  pattern. So \<^verbatim>\<open>title=a.c\<close> matches a record titled \<^verbatim>\<open>abc\<close>, although that title does
  not contain the text \<^verbatim>\<open>a.c\<close>; \<^verbatim>\<open>title=.*\<close> matches every record that has a title;
  and a value that is not a valid pattern, such as \<^verbatim>\<open>(\<close>, makes the request fail with
  the 500 response, whatever the store, instead of filtering.
\<close>

theorem raw_text_is_compiled_as_pattern:
  "(buildQuery req = Done q \<and> param_title req = Some p \<and> p \<noteq> [] \<longrightarrow>
      (\<exists>re. RegExp p = Compiled re \<and> query_title q = Some re)) \<and>
   (buildQuery req = Done q \<and> param_cuisine req = Some p \<and> p \<noteq> [] \<longrightarrow>
      (\<exists>re. RegExp p = Compiled re \<and> query_cuisine q = Some re)) \<and>
   filter_accepts (no_params\<lparr>param_title := Some ''a.c''\<rparr>)
     (blank_recipe\<lparr>title := Some ''abc''\<rparr>) \<and>
   \<not> ci_substring ''a.c'' ''abc'' \<and>
   (title r = Some t \<longrightarrow> filter_accepts (no_params\<lparr>param_title := Some ''.*''\<rparr>) r) \<and>
   (cuisine r = Some t \<longrightarrow> filter_accepts (no_params\<lparr>param_cuisine := Some ''.*''\<rparr>) r) \<and>
   RegExp ''('' = SyntaxError \<and>
   searchRecipes st (no_params\<lparr>param_title := Some ''(''\<rparr>) =
     Failure 500 ''Server Error'' (RegExpSyntaxError ''('') \<and>
   searchRecipes st (no_params\<lparr>param_cuisine := Some ''(''\<rparr>) =
     Failure 500 ''Server Error'' (RegExpSyntaxError ''('') \<and>
   (param_cuisine req = Some p \<and> p \<noteq> [] \<and> RegExp p = SyntaxError \<longrightarrow>
      searchRecipes st req = Failure 500 ''Server Error'' (RegExpSyntaxError p)) \<and>
   (param_title req = Some p \<and> p \<noteq> [] \<and> RegExp p = SyntaxError \<and>
    regex_filter (param_cuisine req) = Done c \<longrightarrow>
      searchRecipes st req = Failure 500 ''Server Error'' (RegExpSyntaxError p))"
proof (intro conjI impI)
  assume "buildQuery req = Done q \<and> param_title req = Some p \<and> p \<noteq> []"
  then show "\<exists>re. RegExp p = Compiled re \<and> query_title q = Some re"
    using buildQuery_title_compiled by blast
next
  assume "buildQuery req = Done q \<and> param_cuisine req = Some p \<and> p \<noteq> []"
  then show "\<exists>re. RegExp p = Compiled re \<and> query_cuisine q = Some re"
    using buildQuery_cuisine_compiled by blast
next
  show "filter_accepts (no_params\<lparr>param_title := Some ''a.c''\<rparr>)
          (blank_recipe\<lparr>title := Some ''abc''\<rparr>)"
    by code_simp
next
  show "\<not> ci_substring ''a.c'' ''abc''" by code_simp
next
  assume "title r = Some t"
  then show "filter_accepts (no_params\<lparr>param_title := Some ''.*''\<rparr>) r"
    by (simp add: filter_accepts_title_only[OF _ RegExp_dot_star] nullable_regex_test)
next
  assume "cuisine r = Some t"
  then show "filter_accepts (no_params\<lparr>param_cuisine := Some ''.*''\<rparr>) r"
    by (simp add: filter_accepts_cuisine_only[OF _ RegExp_dot_star] nullable_regex_test)
next
  show "RegExp ''('' = SyntaxError" by (rule RegExp_open_paren)
next
  show "searchRecipes st (no_params\<lparr>param_title := Some ''(''\<rparr>) =
          Failure 500 ''Server Error'' (RegExpSyntaxError ''('')"
    by (rule invalid_title_500[where c = None])
       (simp_all add: RegExp_open_paren no_params_def regex_filter_def)
next
  show "searchRecipes st (no_params\<lparr>param_cuisine := Some ''(''\<rparr>) =
          Failure 500 ''Server Error'' (RegExpSyntaxError ''('')"
    by (rule invalid_cuisine_500) (simp_all add: RegExp_open_paren)
next
  assume "param_cuisine req = Some p \<and> p \<noteq> [] \<and> RegExp p = SyntaxError"
  then show "searchRecipes st req = Failure 500 ''Server Error'' (RegExpSyntaxError p)"
    by (simp add: invalid_cuisine_500)
next
  assume "param_title req = Some p \<and> p \<noteq> [] \<and> RegExp p = SyntaxError \<and>
    regex_filter (param_cuisine req) = Done c"
  then show "searchRecipes st req = Failure 500 ''Server Error'' (RegExpSyntaxError p)"
    by (simp add: invalid_title_500)
qed

theorem raw_text_is_compiled_as_pattern_witness:
  "title recipe_B = Some ''B'' \<and>
   filter_accepts (no_params\<lparr>param_title := Some ''.*''\<rparr>) recipe_B \<and>
   searchRecipes (collection [recipe_B]) (no_params\<lparr>param_title := Some ''(''\<rparr>) =
     Failure 500 ''Server Error'' (RegExpSyntaxError ''('') \<and>
   param_cuisine (combined_request\<lparr>param_cuisine := Some ''a**''\<rparr>) = Some ''a**'' \<and>
   RegExp ''a**'' = SyntaxError \<and>
   searchRecipes (collection [recipe_B]) (combined_request\<lparr>param_cuisine := Some ''a**''\<rparr>) =
     Failure 500 ''Server Error'' (RegExpSyntaxError ''a**'')"
proof -
  have t: "title recipe_B = Some ''B''" by (simp add: recipe_B_def)
  have s: "RegExp ''a**'' = SyntaxError"
    by (simp add: RegExp_def push_atom_def quantify_def quantified_def)
  have c: "param_cuisine (combined_request\<lparr>param_cuisine := Some ''a**''\<rparr>) = Some ''a**''"
    by simp
  from raw_text_is_compiled_as_pattern[where r = recipe_B and t = "''B''"
      and st = "collection [recipe_B]"
      and req = "combined_request\<lparr>param_cuisine := Some ''a**''\<rparr>" and p = "''a**''"] t s c
  show ?thesis by simp
qed

section \<open>Page metadata\<close>

lemma ceil_nat_div:
  assumes "0 < L"
  shows "\<lceil>(of_nat T :: rat) / of_nat L\<rceil> = int ((T + L - 1) div L)"
proof -
  define z where "z = (T + L - 1) div L"
  have m: "T + L - 1 = z * L + (T + L - 1) mod L" by (simp add: z_def)
  have lt: "(T + L - 1) mod L < L" using assms by simp
  have ub: "T \<le> z * L" using m lt assms by linarith
  have lb: "z * L < T + L" using m assms by linarith
  have Lpos: "(0::rat) < of_nat L" using assms by simp
  have upper: "(of_nat T :: rat) / of_nat L \<le> of_int (int z)"
  proof -
    have "(of_nat T :: rat) \<le> of_nat (z * L)" using ub by (simp only: of_nat_le_iff)
    then have "(of_nat T :: rat) \<le> of_nat z * of_nat L" by simp
    then show ?thesis using Lpos by (simp add: pos_divide_le_eq)
  qed
  have lower: "of_int (int z) - 1 < (of_nat T :: rat) / of_nat L"
  proof -
    have "(of_nat (z * L) :: rat) < of_nat (T + L)" using lb by (simp only: of_nat_less_iff)
    then have "(of_nat z - 1) * (of_nat L :: rat) < of_nat T" by (simp add: algebra_simps)
    then show ?thesis using Lpos by (simp add: pos_less_divide_eq)
  qed
  have "\<lceil>(of_nat T :: rat) / of_nat L\<rceil> = int z" by (rule ceiling_unique[OF lower upper])
  then show ?thesis by (simp add: z_def)
qed

lemma Math_ceil_div_nat:
  "0 < L \<Longrightarrow>
   Math_ceil (js_div (Num (of_nat T)) (Num (of_nat L))) = Num (of_nat ((T + L - 1) div L))"
  by (simp add: Math_ceil_def js_div_def ceil_nat_div)

lemma getRecipes_meta:
  assumes "getRecipes st req = Success b"
  shows "res_page b = or_default (parseInt_param (param_page req)) (Num 1) \<and>
         res_totalPages b = Math_ceil (js_div (Num (of_nat (res_total b)))
                              (or_default (parseInt_param (param_limit req)) (Num 10)))"
  using assms by (auto simp: getRecipes_def server_error_def Let_def split: sum.splits)

lemma searchRecipes_meta:
  assumes "searchRecipes st req = Success b"
  shows "res_page b = parseInt_q (param_or (param_page req) 1) \<and>
         res_totalPages b = Math_ceil (js_div (Num (of_nat (res_total b)))
                              (ToNumber (param_or (param_limit req) 15)))"
  using assms
  by (auto simp: searchRecipes_def searchFind_def searchAggregate_def server_error_def Let_def
      split: sum.splits attempt.splits option.splits)

lemma or_default_absent:
  "v = None \<or> (\<exists>s. v = Some s \<and> parseInt s = NaN) \<Longrightarrow> or_default (parseInt_param v) d = d"
  by (auto simp: or_default_def parseInt_param_def truthy_num_def)

lemma or_default_given:
  "parseInt s = Num n \<Longrightarrow> n \<noteq> 0 \<Longrightarrow> or_default (parseInt_param (Some s)) d = Num n"
  by (simp add: or_default_def parseInt_param_def truthy_num_def)

lemma listing_page_default:
  "getRecipes st req = Success b \<and>
    (param_page req = None \<or> (\<exists>s. param_page req = Some s \<and> parseInt s = NaN)) \<longrightarrow>
      res_page b = Num 1"
proof
  assume a: "getRecipes st req = Success b \<and>
    (param_page req = None \<or> (\<exists>s. param_page req = Some s \<and> parseInt s = NaN))"
  then have g: "getRecipes st req = Success b" by blast
  from a have "or_default (parseInt_param (param_page req)) (Num 1) = Num 1"
    by (intro or_default_absent) blast
  with getRecipes_meta[OF g] show "res_page b = Num 1" by simp
qed

lemma listing_page_given:
  "getRecipes st req = Success b \<and> param_page req = Some s \<and> parseInt s = Num n \<and> n \<noteq> 0 \<longrightarrow>
      res_page b = Num n"
proof
  assume a: "getRecipes st req = Success b \<and> param_page req = Some s \<and> parseInt s = Num n \<and>
    n \<noteq> 0"
  then have g: "getRecipes st req = Success b" by blast
  from a have "or_default (parseInt_param (param_page req)) (Num 1) = Num n"
    by (simp add: or_default_given)
  with getRecipes_meta[OF g] show "res_page b = Num n" by simp
qed

lemma listing_limit_default:
  "getRecipes st req = Success b \<and>
    (param_limit req = None \<or> (\<exists>s. param_limit req = Some s \<and> parseInt s = NaN)) \<longrightarrow>
      res_totalPages b = Math_ceil (js_div (Num (of_nat (res_total b))) (Num 10)) \<and>
      res_totalPages b = Num (of_nat ((res_total b + 9) div 10))"
proof
  assume a: "getRecipes st req = Success b \<and>
    (param_limit req = None \<or> (\<exists>s. param_limit req = Some s \<and> parseInt s = NaN))"
  then have g: "getRecipes st req = Success b" by blast
  from a have "or_default (parseInt_param (param_limit req)) (Num 10) = Num 10"
    by (intro or_default_absent) blast
  with getRecipes_meta[OF g]
  have c: "res_totalPages b = Math_ceil (js_div (Num (of_nat (res_total b))) (Num 10))"
    by simp
  moreover have "Math_ceil (js_div (Num (of_nat (res_total b))) (Num (of_nat 10))) =
                   Num (of_nat ((res_total b + 10 - 1) div 10))"
    by (rule Math_ceil_div_nat) simp
  ultimately show "res_totalPages b = Math_ceil (js_div (Num (of_nat (res_total b))) (Num 10)) \<and>
      res_totalPages b = Num (of_nat ((res_total b + 9) div 10))"
    by simp
qed

lemma listing_limit_given:
  "getRecipes st req = Success b \<and> param_limit req = Some s \<and>
    parseInt s = Num (of_nat L) \<and> 0 < L \<longrightarrow>
      res_totalPages b = Math_ceil (js_div (Num (of_nat (res_total b))) (Num (of_nat L))) \<and>
      res_totalPages b = Num (of_nat ((res_total b + L - 1) div L))"
proof
  assume a: "getRecipes st req = Success b \<and> param_limit req = Some s \<and>
    parseInt s = Num (of_nat L) \<and> 0 < L"
  then have g: "getRecipes st req = Success b" and L: "0 < L" by blast+
  from a have "or_default (parseInt_param (param_limit req)) (Num 10) = Num (of_nat L)"
    by (simp add: or_default_given)
  with getRecipes_meta[OF g]
  have c: "res_totalPages b = Math_ceil (js_div (Num (of_nat (res_total b))) (Num (of_nat L)))"
    by simp
  with Math_ceil_div_nat[OF L, of "res_total b"]
  show "res_totalPages b = Math_ceil (js_div (Num (of_nat (res_total b))) (Num (of_nat L))) \<and>
      res_totalPages b = Num (of_nat ((res_total b + L - 1) div L))"
    by simp
qed

lemma search_page_default:
  "searchRecipes st req = Success b \<and> param_page req = None \<longrightarrow> res_page b = Num 1"
proof
  assume a: "searchRecipes st req = Success b \<and> param_page req = None"
  then have g: "searchRecipes st req = Success b" by blast
  from searchRecipes_meta[OF g] a show "res_page b = Num 1"
    by (simp add: param_or_def parseInt_q_def)
qed

lemma search_page_given:
  "searchRecipes st req = Success b \<and> param_page req = Some s \<and> parseInt s = Num n \<longrightarrow>
      res_page b = Num n"
proof
  assume a: "searchRecipes st req = Success b \<and> param_page req = Some s \<and> parseInt s = Num n"
  then have g: "searchRecipes st req = Success b" by blast
  from searchRecipes_meta[OF g] a show "res_page b = Num n"
    by (simp add: param_or_def parseInt_q_def)
qed

lemma search_limit_default:
  "searchRecipes st req = Success b \<and> param_limit req = None \<longrightarrow>
      res_totalPages b = Math_ceil (js_div (Num (of_nat (res_total b))) (Num 15)) \<and>
      res_totalPages b = Num (of_nat ((res_total b + 14) div 15))"
proof
  assume a: "searchRecipes st req = Success b \<and> param_limit req = None"
  then have g: "searchRecipes st req = Success b" by blast
  from searchRecipes_meta[OF g] a
  have c: "res_totalPages b = Math_ceil (js_div (Num (of_nat (res_total b))) (Num 15))"
    by (simp add: param_or_def ToNumber_def)
  moreover have "Math_ceil (js_div (Num (of_nat (res_total b))) (Num (of_nat 15))) =
                   Num (of_nat ((res_total b + 15 - 1) div 15))"
    by (rule Math_ceil_div_nat) simp
  ultimately show "res_totalPages b = Math_ceil (js_div (Num (of_nat (res_total b))) (Num 15)) \<and>
      res_totalPages b = Num (of_nat ((res_total b + 14) div 15))"
    by simp
qed

lemma search_limit_given:
  "searchRecipes st req = Success b \<and> param_limit req = Some s \<and>
    StringToNumber s = Num (of_nat L) \<and> 0 < L \<longrightarrow>
      res_totalPages b = Math_ceil (js_div (Num (of_nat (res_total b))) (Num (of_nat L))) \<and>
      res_totalPages b = Num (of_nat ((res_total b + L - 1) div L))"
proof
  assume a: "searchRecipes st req = Success b \<and> param_limit req = Some s \<and>
    StringToNumber s = Num (of_nat L) \<and> 0 < L"
  then have g: "searchRecipes st req = Success b" and L: "0 < L" by blast+
  from searchRecipes_meta[OF g] a
  have c: "res_totalPages b = Math_ceil (js_div (Num (of_nat (res_total b))) (Num (of_nat L)))"
    by (simp add: param_or_def ToNumber_def)
  with Math_ceil_div_nat[OF L, of "res_total b"]
  show "res_totalPages b = Math_ceil (js_div (Num (of_nat (res_total b))) (Num (of_nat L))) \<and>
      res_totalPages b = Num (of_nat ((res_total b + L - 1) div L))"
    by simp
qed

text \<open>
  Claim C7, refuted as stated: the response does not echo the limit. Requests that differ
  only in their limit (5 and 7) receive the very same response from either endpoint on an
  empty store, so the limit cannot be read off the response; the body has the fields
  \<^verbatim>\<open>count\<close>, \<^verbatim>\<open>total\<close>, \<^verbatim>\<open>page\<close>, \<^verbatim>\<open>totalPages\<close> and \<^verbatim>\<open>data\<close> only.
\<close>

theorem limit_is_not_echoed:
  "getRecipes (collection []) (no_params\<lparr>param_limit := Some ''5''\<rparr>) =
     getRecipes (collection []) (no_params\<lparr>param_limit := Some ''7''\<rparr>) \<and>
   searchRecipes (collection []) (no_params\<lparr>param_limit := Some ''5''\<rparr>) =
     searchRecipes (collection []) (no_params\<lparr>param_limit := Some ''7''\<rparr>) \<and>
   getRecipes (collection []) (no_params\<lparr>param_limit := Some ''5''\<rparr>) =
     Success \<lparr>res_count = 0, res_total = 0, res_page = Num 1, res_totalPages = Num 0,
              res_data = []\<rparr>"
proof -
  have 1: "getRecipes (collection []) (no_params\<lparr>param_limit := Some ''5''\<rparr>) =
     Success \<lparr>res_count = 0, res_total = 0, res_page = Num 1, res_totalPages = Num 0,
              res_data = []\<rparr>"
    by code_simp
  have 2: "getRecipes (collection []) (no_params\<lparr>param_limit := Some ''7''\<rparr>) =
     Success \<lparr>res_count = 0, res_total = 0, res_page = Num 1, res_totalPages = Num 0,
              res_data = []\<rparr>"
    by code_simp
  have 3: "searchRecipes (collection []) (no_params\<lparr>param_limit := Some ''5''\<rparr>) =
     searchRecipes (collection []) (no_params\<lparr>param_limit := Some ''7''\<rparr>)"
    by code_simp
  from 1 2 3 show ?thesis by simp
qed

text \<open>
  Claim C7, amended. Every success response reports
  \<open>totalPages = ceil (total / limit)\<close> for the limit after defaulting, and echoes the page
  after defaulting; it has no limit field. On the listing endpoint the page defaults to
  1 and the limit to 10 whenever the parameter is absent or not numeric; on the search
  endpoint the page defaults to 1 and the limit to 15 when the parameter is absent. A
  given numeric page is echoed as given; for a limit given as a positive integer \<open>L\<close>,
  \<open>totalPages\<close> is the integer ceiling \<open>(total + L - 1) div L\<close>. (What the search endpoint
  does with a non-numeric page or limit is left open here.)
\<close>

theorem page_metadata:
  "(getRecipes st req = Success b \<and>
    (param_page req = None \<or> (\<exists>s. param_page req = Some s \<and> parseInt s = NaN)) \<longrightarrow>
      res_page b = Num 1) \<and>
   (getRecipes st req = Success b \<and> param_page req = Some s \<and> parseInt s = Num n \<and> n \<noteq> 0 \<longrightarrow>
      res_page b = Num n) \<and>
   (getRecipes st req = Success b \<and>
    (param_limit req = None \<or> (\<exists>s. param_limit req = Some s \<and> parseInt s = NaN)) \<longrightarrow>
      res_totalPages b = Math_ceil (js_div (Num (of_nat (res_total b))) (Num 10)) \<and>
      res_totalPages b = Num (of_nat ((res_total b + 9) div 10))) \<and>
   (getRecipes st req = Success b \<and> param_limit req = Some s \<and>
    parseInt s = Num (of_nat L) \<and> 0 < L \<longrightarrow>
      res_totalPages b = Math_ceil (js_div (Num (of_nat (res_total b))) (Num (of_nat L))) \<and>
      res_totalPages b = Num (of_nat ((res_total b + L - 1) div L))) \<and>
   (searchRecipes st req = Success b \<and> param_page req = None \<longrightarrow> res_page b = Num 1) \<and>
   (searchRecipes st req = Success b \<and> param_page req = Some s \<and> parseInt s = Num n \<longrightarrow>
      res_page b = Num n) \<and>
   (searchRecipes st req = Success b \<and> param_limit req = None \<longrightarrow>
      res_totalPages b = Math_ceil (js_div (Num (of_nat (res_total b))) (Num 15)) \<and>
      res_totalPages b = Num (of_nat ((res_total b + 14) div 15))) \<and>
   (searchRecipes st req = Success b \<and> param_limit req = Some s \<and>
    StringToNumber s = Num (of_nat L) \<and> 0 < L \<longrightarrow>
      res_totalPages b = Math_ceil (js_div (Num (of_nat (res_total b))) (Num (of_nat L))) \<and>
      res_totalPages b = Num (of_nat ((res_total b + L - 1) div L)))"
  apply (intro conjI)
  subgoal by (rule listing_page_default)
  subgoal by (rule listing_page_given)
  subgoal by (rule listing_limit_default)
  subgoal by (rule listing_limit_given)
  subgoal by (rule search_page_default)
  subgoal by (rule search_page_given)
  subgoal by (rule search_limit_default)
  subgoal by (rule search_limit_given)
  done

theorem page_metadata_witness:
  "getRecipes (collection [recipe_A, recipe_B, recipe_C])
     (no_params\<lparr>param_page := Some ''2'', param_limit := Some ''2''\<rparr>) =
     Success \<lparr>res_count = 1, res_total = 3, res_page = Num 2, res_totalPages = Num 2,
              res_data = [recipe_B]\<rparr> \<and>
   parseInt ''2'' = Num (of_nat 2) \<and>
   res_totalPages \<lparr>res_count = 1, res_total = 3, res_page = Num 2, res_totalPages = Num 2,
              res_data = [recipe_B]\<rparr> = Num (of_nat ((3 + 2 - 1) div 2)) \<and>
   searchRecipes (collection [recipe_A, recipe_B, recipe_C]) no_params =
     Success \<lparr>res_count = 3, res_total = 3, res_page = Num 1, res_totalPages = Num 1,
              res_data = [recipe_C, recipe_A, recipe_B]\<rparr> \<and>
   res_totalPages \<lparr>res_count = 3, res_total = 3, res_page = Num 1, res_totalPages = Num 1,
              res_data = [recipe_C, recipe_A, recipe_B]\<rparr> = Num (of_nat ((3 + 14) div 15))"
proof -
  have g: "getRecipes (collection [recipe_A, recipe_B, recipe_C])
     (no_params\<lparr>param_page := Some ''2'', param_limit := Some ''2''\<rparr>) =
     Success \<lparr>res_count = 1, res_total = 3, res_page = Num 2, res_totalPages = Num 2,
              res_data = [recipe_B]\<rparr>"
    by code_simp
  have p: "parseInt ''2'' = Num (of_nat 2)" by code_simp
  have s: "searchRecipes (collection [recipe_A, recipe_B, recipe_C]) no_params =
     Success \<lparr>res_count = 3, res_total = 3, res_page = Num 1, res_totalPages = Num 1,
              res_data = [recipe_C, recipe_A, recipe_B]\<rparr>"
    by code_simp
  have l: "param_limit (no_params\<lparr>param_page := Some ''2'', param_limit := Some ''2''\<rparr>) =
             Some ''2''"
    by simp
  have n: "param_limit no_params = None" by (simp add: no_params_def)
  note listing = page_metadata[where st = "collection [recipe_A, recipe_B, recipe_C]"
        and req = "no_params\<lparr>param_page := Some ''2'', param_limit := Some ''2''\<rparr>"
        and s = "''2''" and L = 2
        and b = "\<lparr>res_count = 1, res_total = 3, res_page = Num 2, res_totalPages = Num 2,
              res_data = [recipe_B]\<rparr>",
        THEN conjunct2, THEN conjunct2, THEN conjunct2, THEN conjunct1, THEN mp]
  have 1: "res_totalPages \<lparr>res_count = 1, res_total = 3, res_page = Num 2,
              res_totalPages = Num 2, res_data = [recipe_B]\<rparr> = Num (of_nat ((3 + 2 - 1) div 2))"
    using listing g p l by simp
  note search = page_metadata[where st = "collection [recipe_A, recipe_B, recipe_C]"
        and req = no_params
        and b = "\<lparr>res_count = 3, res_total = 3, res_page = Num 1, res_totalPages = Num 1,
              res_data = [recipe_C, recipe_A, recipe_B]\<rparr>",
        THEN conjunct2, THEN conjunct2, THEN conjunct2, THEN conjunct2, THEN conjunct2,
        THEN conjunct2, THEN conjunct1, THEN mp]
  have 2: "res_totalPages \<lparr>res_count = 3, res_total = 3, res_page = Num 1,
              res_totalPages = Num 1, res_data = [recipe_C, recipe_A, recipe_B]\<rparr> =
             Num (of_nat ((3 + 14) div 15))"
    using search s n by simp
  from g p s 1 2 show ?thesis by blast
qed

section \<open>Failures\<close>

lemma getRecipes_outcomes:
  "(\<exists>b. getRecipes st req = Success b \<and> countDocuments st empty_query = Inr (res_total b) \<and>
        (\<exists>s l. find_sort_skip_limit st empty_query s l = Inr (res_data b))) \<or>
   (\<exists>m. getRecipes st req = Failure 500 ''Server Error'' (StoreError m) \<and>
        (countDocuments st empty_query = Inl m \<or>
         (\<exists>s l. find_sort_skip_limit st empty_query s l = Inl m)))"
  by (auto simp: getRecipes_def server_error_def Let_def split: sum.splits)

lemma searchFind_outcomes:
  "(\<exists>b. searchFind st req q = Success b \<and> countDocuments st q = Inr (res_total b) \<and>
        (\<exists>s l. find_sort_skip_limit st q s l = Inr (res_data b))) \<or>
   (\<exists>m. searchFind st req q = Failure 500 ''Server Error'' (StoreError m) \<and>
        (countDocuments st q = Inl m \<or> (\<exists>s l. find_sort_skip_limit st q s l = Inl m)))"
  by (auto simp: searchFind_def server_error_def Let_def split: sum.splits)

lemma searchAggregate_outcomes:
  "(\<exists>b. searchAggregate st req q c = Success b \<and>
        (\<exists>ts. aggregate_count st (aggregationPipeline q c @ [Count]) = Inr ts) \<and>
        (\<exists>p. aggregate st (aggregationPipeline q c @ p) = Inr (res_data b))) \<or>
   (\<exists>m. searchAggregate st req q c = Failure 500 ''Server Error'' (StoreError m) \<and>
        (aggregate_count st (aggregationPipeline q c @ [Count]) = Inl m \<or>
         (\<exists>p. aggregate st (aggregationPipeline q c @ p) = Inl m)))"
  by (auto simp: searchAggregate_def server_error_def Let_def split: sum.splits)

lemma searchRecipes_outcomes:
  "buildQuery req = Done q \<longrightarrow>
      (\<exists>b. searchRecipes st req = Success b \<and>
           ((countDocuments st q = Inr (res_total b) \<and>
             (\<exists>s l. find_sort_skip_limit st q s l = Inr (res_data b))) \<or>
            (\<exists>c. (\<exists>ts. aggregate_count st (aggregationPipeline q c @ [Count]) = Inr ts) \<and>
                 (\<exists>p. aggregate st (aggregationPipeline q c @ p) = Inr (res_data b))))) \<or>
      (\<exists>m. searchRecipes st req = Failure 500 ''Server Error'' (StoreError m) \<and>
           (countDocuments st q = Inl m \<or> (\<exists>s l. find_sort_skip_limit st q s l = Inl m) \<or>
            (\<exists>p. aggregate_count st p = Inl m) \<or> (\<exists>p. aggregate st p = Inl m)))"
proof
  assume b: "buildQuery req = Done q"
  show "(\<exists>b. searchRecipes st req = Success b \<and>
           ((countDocuments st q = Inr (res_total b) \<and>
             (\<exists>s l. find_sort_skip_limit st q s l = Inr (res_data b))) \<or>
            (\<exists>c. (\<exists>ts. aggregate_count st (aggregationPipeline q c @ [Count]) = Inr ts) \<and>
                 (\<exists>p. aggregate st (aggregationPipeline q c @ p) = Inr (res_data b))))) \<or>
      (\<exists>m. searchRecipes st req = Failure 500 ''Server Error'' (StoreError m) \<and>
           (countDocuments st q = Inl m \<or> (\<exists>s l. find_sort_skip_limit st q s l = Inl m) \<or>
            (\<exists>p. aggregate_count st p = Inl m) \<or> (\<exists>p. aggregate st p = Inl m)))"
  proof (cases "comparison_filter (param_calories req)")
    case None
    with b have e: "searchRecipes st req = searchFind st req q"
      by (simp add: searchRecipes_def)
    from searchFind_outcomes[of st req q] show ?thesis
      unfolding e by blast
  next
    case (Some c)
    with b have e: "searchRecipes st req = searchAggregate st req q c"
      by (simp add: searchRecipes_def)
    from searchAggregate_outcomes[of st req q c] show ?thesis
      unfolding e by blast
  qed
qed

lemma searchRecipes_threw:
  "buildQuery req = Threw e \<longrightarrow>
      searchRecipes st req = Failure 500 ''Server Error'' e \<and>
      (\<exists>p. e = RegExpSyntaxError p \<and> RegExp p = SyntaxError \<and>
           (param_cuisine req = Some p \<or> param_title req = Some p))"
  using buildQuery_Threw[of req e] by (simp add: searchRecipes_def server_error_def)

lemma listing_first_failure:
  "(\<forall>s l. find_sort_skip_limit st empty_query s l = Inl m) \<longrightarrow>
      getRecipes st req = Failure 500 ''Server Error'' (StoreError m)"
  by (simp add: getRecipes_def server_error_def Let_def)

lemma listing_second_failure:
  "(\<forall>s l. \<exists>rs. find_sort_skip_limit st empty_query s l = Inr rs) \<and>
    countDocuments st empty_query = Inl m \<longrightarrow>
      getRecipes st req = Failure 500 ''Server Error'' (StoreError m)"
proof
  assume a: "(\<forall>s l. \<exists>rs. find_sort_skip_limit st empty_query s l = Inr rs) \<and>
    countDocuments st empty_query = Inl m"
  then obtain rs where "find_sort_skip_limit st empty_query
      (js_mul (js_sub (or_default (parseInt_param (param_page req)) (Num 1)) (Num 1))
              (or_default (parseInt_param (param_limit req)) (Num 10)))
      (or_default (parseInt_param (param_limit req)) (Num 10)) = Inr rs"
    by blast
  with a show "getRecipes st req = Failure 500 ''Server Error'' (StoreError m)"
    by (simp add: getRecipes_def server_error_def Let_def)
qed

lemma find_first_failure:
  "countDocuments st q = Inl m \<longrightarrow>
      searchFind st req q = Failure 500 ''Server Error'' (StoreError m)"
  by (simp add: searchFind_def server_error_def Let_def)

lemma find_second_failure:
  "(\<exists>n. countDocuments st q = Inr n) \<and> (\<forall>s l. find_sort_skip_limit st q s l = Inl m) \<longrightarrow>
      searchFind st req q = Failure 500 ''Server Error'' (StoreError m)"
  by (auto simp: searchFind_def server_error_def Let_def)

lemma aggregate_first_failure:
  "aggregate_count st (aggregationPipeline q c @ [Count]) = Inl m \<longrightarrow>
      searchAggregate st req q c = Failure 500 ''Server Error'' (StoreError m)"
  by (simp add: searchAggregate_def server_error_def Let_def)

lemma aggregate_second_failure:
  "(\<exists>ts. aggregate_count st (aggregationPipeline q c @ [Count]) = Inr ts) \<and>
    (\<forall>p. aggregate st p = Inl m) \<longrightarrow>
      searchAggregate st req q c = Failure 500 ''Server Error'' (StoreError m)"
  by (auto simp: searchAggregate_def server_error_def Let_def)

lemma search_failure_status:
  "searchRecipes st req = Failure s msg e \<longrightarrow> s = 500 \<and> msg = ''Server Error''"
  by (auto simp: searchRecipes_def searchFind_def searchAggregate_def server_error_def Let_def
      split: sum.splits attempt.splits option.splits)

lemma listing_failure_status:
  "getRecipes st req = Failure s msg e \<longrightarrow> s = 500 \<and> msg = ''Server Error''"
  by (auto simp: getRecipes_def server_error_def Let_def split: sum.splits)

text \<open>
  Claim C9, refuted as stated: store failure is not the only error that reaches the
  caller. On a store that answers every round trip, the request \<^verbatim>\<open>title=(\<close> is answered
  with the 500 response, carrying the syntax error of the pattern.
\<close>

theorem invalid_pattern_surfaces_without_store_failure:
  "searchRecipes (collection []) (no_params\<lparr>param_title := Some ''(''\<rparr>) =
     Failure 500 ''Server Error'' (RegExpSyntaxError ''('') \<and>
   countDocuments (collection []) empty_query = Inr 0 \<and>
   searchRecipes (collection []) no_params =
     Success \<lparr>res_count = 0, res_total = 0, res_page = Num 1, res_totalPages = Num 0,
              res_data = []\<rparr>"
proof -
  have 1: "searchRecipes (collection []) (no_params\<lparr>param_title := Some ''(''\<rparr>) =
     Failure 500 ''Server Error'' (RegExpSyntaxError ''('')"
    by code_simp
  have 2: "countDocuments (collection []) empty_query = Inr 0" by (simp add: collection_def)
  have 3: "searchRecipes (collection []) no_params =
     Success \<lparr>res_count = 0, res_total = 0, res_page = Num 1, res_totalPages = Num 0,
              res_data = []\<rparr>"
    by code_simp
  from 1 2 3 show ?thesis by blast
qed

text \<open>
  Claim C9, amended. Every store-operation failure during a request is caught and
  converted into a 500 response of the shape \<^verbatim>\<open>{success: false, message, error}\<close> with
  the message "Server Error" and the text of the underlying error, and no partial data
  is returned: a success response exists only when both round trips of its path have
  answered, and a failure of the first or of the second round trip (of the listing, of the
  direct query, of the aggregation path) fails the whole request. A title or cuisine
  value that does not compile as a pattern is surfaced through the same 500 response.
  No request is answered with another failure status, so none with a 400.
\<close>

theorem failures_become_500:
  "((\<exists>b. getRecipes st req = Success b \<and> countDocuments st empty_query = Inr (res_total b) \<and>
         (\<exists>s l. find_sort_skip_limit st empty_query s l = Inr (res_data b))) \<or>
    (\<exists>m. getRecipes st req = Failure 500 ''Server Error'' (StoreError m) \<and>
         (countDocuments st empty_query = Inl m \<or>
          (\<exists>s l. find_sort_skip_limit st empty_query s l = Inl m)))) \<and>
   (buildQuery req = Done q \<longrightarrow>
      (\<exists>b. searchRecipes st req = Success b \<and>
           ((countDocuments st q = Inr (res_total b) \<and>
             (\<exists>s l. find_sort_skip_limit st q s l = Inr (res_data b))) \<or>
            (\<exists>c. (\<exists>ts. aggregate_count st (aggregationPipeline q c @ [Count]) = Inr ts) \<and>
                 (\<exists>p. aggregate st (aggregationPipeline q c @ p) = Inr (res_data b))))) \<or>
      (\<exists>m. searchRecipes st req = Failure 500 ''Server Error'' (StoreError m) \<and>
           (countDocuments st q = Inl m \<or> (\<exists>s l. find_sort_skip_limit st q s l = Inl m) \<or>
            (\<exists>p. aggregate_count st p = Inl m) \<or> (\<exists>p. aggregate st p = Inl m)))) \<and>
   (buildQuery req = Threw e \<longrightarrow>
      searchRecipes st req = Failure 500 ''Server Error'' e \<and>
      (\<exists>p. e = RegExpSyntaxError p \<and> RegExp p = SyntaxError \<and>
           (param_cuisine req = Some p \<or> param_title req = Some p))) \<and>
   ((\<forall>s l. find_sort_skip_limit st empty_query s l = Inl m) \<longrightarrow>
      getRecipes st req = Failure 500 ''Server Error'' (StoreError m)) \<and>
   ((\<forall>s l. \<exists>rs. find_sort_skip_limit st empty_query s l = Inr rs) \<and>
    countDocuments st empty_query = Inl m \<longrightarrow>
      getRecipes st req = Failure 500 ''Server Error'' (StoreError m)) \<and>
   (countDocuments st q = Inl m \<longrightarrow>
      searchFind st req q = Failure 500 ''Server Error'' (StoreError m)) \<and>
   ((\<exists>n. countDocuments st q = Inr n) \<and> (\<forall>s l. find_sort_skip_limit st q s l = Inl m) \<longrightarrow>
      searchFind st req q = Failure 500 ''Server Error'' (StoreError m)) \<and>
   (aggregate_count st (aggregationPipeline q c @ [Count]) = Inl m \<longrightarrow>
      searchAggregate st req q c = Failure 500 ''Server Error'' (StoreError m)) \<and>
   ((\<exists>ts. aggregate_count st (aggregationPipeline q c @ [Count]) = Inr ts) \<and>
    (\<forall>p. aggregate st p = Inl m) \<longrightarrow>
      searchAggregate st req q c = Failure 500 ''Server Error'' (StoreError m)) \<and>
   (searchRecipes st req = Failure s msg e \<longrightarrow> s = 500 \<and> msg = ''Server Error'') \<and>
   (getRecipes st req = Failure s msg e \<longrightarrow> s = 500 \<and> msg = ''Server Error'')"
  apply (intro conjI)
  subgoal by (rule getRecipes_outcomes)
  subgoal by (rule searchRecipes_outcomes)
  subgoal by (rule searchRecipes_threw)
  subgoal by (rule listing_first_failure)
  subgoal by (rule listing_second_failure)
  subgoal by (rule find_first_failure)
  subgoal by (rule find_second_failure)
  subgoal by (rule aggregate_first_failure)
  subgoal by (rule aggregate_second_failure)
  subgoal by (rule search_failure_status)
  subgoal by (rule listing_failure_status)
  done

theorem failures_become_500_witness:
  "getRecipes (failing_store ''connection lost'') no_params =
     Failure 500 ''Server Error'' (StoreError ''connection lost'') \<and>
   countDocuments (failing_store ''connection lost'') empty_query = Inl ''connection lost'' \<and>
   searchFind (failing_store ''connection lost'') no_params empty_query =
     Failure 500 ''Server Error'' (StoreError ''connection lost'') \<and>
   searchAggregate (failing_store ''connection lost'') no_params empty_query (Lte (Num 400)) =
     Failure 500 ''Server Error'' (StoreError ''connection lost'')"
proof -
  have f: "\<forall>s l. find_sort_skip_limit (failing_store ''connection lost'') empty_query s l =
             Inl ''connection lost''"
    by (simp add: failing_store_def)
  have c: "countDocuments (failing_store ''connection lost'') empty_query =
             Inl ''connection lost''"
    by (simp add: failing_store_def)
  have a: "aggregate_count (failing_store ''connection lost'')
             (aggregationPipeline empty_query (Lte (Num 400)) @ [Count]) = Inl ''connection lost''"
    by (simp add: failing_store_def)
  note t = failures_become_500[where st = "failing_store ''connection lost''"
      and req = no_params and q = empty_query and m = "''connection lost''"
      and c = "Lte (Num 400)", THEN conjunct2, THEN conjunct2, THEN conjunct2]
  have 1: "getRecipes (failing_store ''connection lost'') no_params =
     Failure 500 ''Server Error'' (StoreError ''connection lost'')"
    using t[THEN conjunct1, THEN mp, OF f] .
  have 2: "searchFind (failing_store ''connection lost'') no_params empty_query =
     Failure 500 ''Server Error'' (StoreError ''connection lost'')"
    using t[THEN conjunct2, THEN conjunct2, THEN conjunct1, THEN mp, OF c] .
  have 3: "searchAggregate (failing_store ''connection lost'') no_params empty_query
             (Lte (Num 400)) = Failure 500 ''Server Error'' (StoreError ''connection lost'')"
    using t[THEN conjunct2, THEN conjunct2, THEN conjunct2, THEN conjunct2, THEN conjunct1,
        THEN mp, OF a] .
  from 1 c 2 3 show ?thesis by blast
qed

section \<open>Ordering of results and ties\<close>



























lemma rating_key_eq: "(rating_desc_key r = rating_desc_key r') = (rating r = rating r')"
  by (auto simp: rating_desc_key_def split: option.splits)





end
